theory Spec2Isabelle
  imports Complex_Main "HOL-Library.Char_ord"
begin

section \<open>JavaScript strings\<close>

text \<open>
  A string is the list of its code units, for the code units below 256 (ASCII and the
  Latin-1 supplement). \<open>toLowerCase\<close>, \<open>includes\<close>, \<open>replace\<close> (string pattern,
  first occurrence) and \<open>join\<close> are the methods the sources call. The two literals of
  the sources with a code unit beyond 255 (the signs that decorate the confirmation prompt)
  are written as their UTF-8 bytes.
\<close>

abbreviation (input) BS :: char where "BS \<equiv> CHR 0x5C"
abbreviation (input) DQ :: char where "DQ \<equiv> CHR 0x22"
abbreviation (input) SQ :: char where "SQ \<equiv> CHR 0x27"
abbreviation (input) NL :: char where "NL \<equiv> CHR 0x0A"

definition is_upper :: "char \<Rightarrow> bool" where
  "is_upper c = (CHR ''A'' \<le> c \<and> c \<le> CHR ''Z'')"

definition is_lower :: "char \<Rightarrow> bool" where
  "is_lower c = (CHR ''a'' \<le> c \<and> c \<le> CHR ''z'')"

definition is_digit :: "char \<Rightarrow> bool" where
  "is_digit c = (CHR ''0'' \<le> c \<and> c \<le> CHR ''9'')"

text \<open>
  Below 256 the letters with a lower case are \<open>A\<close> to \<open>Z\<close> and the code units
  \<open>0xC0\<close> to \<open>0xDE\<close> without the multiplication sign \<open>0xD7\<close>.
\<close>

definition has_lower :: "char \<Rightarrow> bool" where
  "has_lower c = (is_upper c \<or> (CHR 0xC0 \<le> c \<and> c \<le> CHR 0xDE \<and> c \<noteq> CHR 0xD7))"

definition toLowerChar :: "char \<Rightarrow> char" where
  "toLowerChar c = (if has_lower c then char_of (of_char c + (32::nat)) else c)"

text \<open>
  The upper case that a regular expression with the \<open>i\<close> flag compares by; the patterns
  of the sources name ASCII characters only, which no other code unit folds onto.
\<close>

definition toUpperChar :: "char \<Rightarrow> char" where
  "toUpperChar c = (if is_lower c then char_of (of_char c - (32::nat)) else c)"

definition toLowerCase :: "string \<Rightarrow> string" where
  "toLowerCase s = map toLowerChar s"

fun starts_with :: "string \<Rightarrow> string \<Rightarrow> bool" where
  "starts_with s [] = True"
| "starts_with [] (p # ps) = False"
| "starts_with (c # cs) (p # ps) = (c = p \<and> starts_with cs ps)"

fun str_includes :: "string \<Rightarrow> string \<Rightarrow> bool" where
  "str_includes [] sub = (sub = [])"
| "str_includes (c # cs) sub = (starts_with (c # cs) sub \<or> str_includes cs sub)"

fun replace_first :: "string \<Rightarrow> string \<Rightarrow> string \<Rightarrow> string" where
  "replace_first [] pat rep = (if pat = [] then rep else [])"
| "replace_first (c # cs) pat rep =
     (if starts_with (c # cs) pat then rep @ drop (length pat) (c # cs)
      else c # replace_first cs pat rep)"

fun join :: "string \<Rightarrow> string list \<Rightarrow> string" where
  "join sep [] = []"
| "join sep [x] = x"
| "join sep (x # y # ys) = x @ sep @ join sep (y # ys)"

definition digit_char :: "nat \<Rightarrow> char" where
  "digit_char d = char_of (48 + d)"

function show_nat :: "nat \<Rightarrow> string" where
  "show_nat n = (if n < 10 then [digit_char n] else show_nat (n div 10) @ [digit_char (n mod 10)])"
  by pat_completeness auto
termination
  by (relation "measure id") auto

declare show_nat.simps [simp del]

definition show_int :: "int \<Rightarrow> string" where
  "show_int i = (if i < 0 then CHR ''-'' # show_nat (nat (- i)) else show_nat (nat i))"

section \<open>JSON values\<close>

text \<open>
  The \<open>any\<close>-typed payloads (\<open>updates\<close>, \<open>modifications\<close>, \<open>metadata\<close>) arrive as
  parsed JSON. Numbers are modelled as integers, for which \<open>String(n)\<close> is the decimal
  numeral as long as \<open>n\<close> is a safe integer (\<open>safe_integers\<close> below); an object is the
  list of its own properties in enumeration order, each name occurring once.
\<close>

datatype json =
    JNull
  | JBool bool
  | JNum int
  | JStr string
  | JArr "json list"
  | JObj "(string \<times> json) list"

text \<open>Truthiness of a value read from a payload; \<open>None\<close> is \<open>undefined\<close>.\<close>

fun truthy :: "json option \<Rightarrow> bool" where
  "truthy None = False"
| "truthy (Some JNull) = False"
| "truthy (Some (JBool b)) = b"
| "truthy (Some (JNum n)) = (n \<noteq> 0)"
| "truthy (Some (JStr s)) = (s \<noteq> [])"
| "truthy (Some (JArr xs)) = True"
| "truthy (Some (JObj kvs)) = True"

definition hex_digit :: "nat \<Rightarrow> char" where
  "hex_digit d = (if d < 10 then char_of (48 + d) else char_of (87 + d))"

text \<open>\<open>JSON.stringify\<close> on a string: the quoted string with its escapes.\<close>

definition escape_char :: "char \<Rightarrow> string" where
  "escape_char c =
     (if c = DQ then [BS, DQ]
      else if c = BS then [BS, BS]
      else if c = CHR 0x08 then [BS, CHR ''b'']
      else if c = CHR 0x09 then [BS, CHR ''t'']
      else if c = CHR 0x0A then [BS, CHR ''n'']
      else if c = CHR 0x0C then [BS, CHR ''f'']
      else if c = CHR 0x0D then [BS, CHR ''r'']
      else if c < CHR 0x20 then
        [BS, CHR ''u'', CHR ''0'', CHR ''0'',
         hex_digit (of_char c div 16), hex_digit (of_char c mod 16)]
      else [c])"

definition quote_string :: "string \<Rightarrow> string" where
  "quote_string s = DQ # concat (map escape_char s) @ [DQ]"

fun stringify :: "json \<Rightarrow> string"
and stringify_elems :: "json list \<Rightarrow> string list"
and stringify_props :: "(string \<times> json) list \<Rightarrow> string list" where
  "stringify JNull = ''null''"
| "stringify (JBool b) = (if b then ''true'' else ''false'')"
| "stringify (JNum n) = show_int n"
| "stringify (JStr s) = quote_string s"
| "stringify (JArr xs) = ''['' @ join '','' (stringify_elems xs) @ '']''"
| "stringify (JObj kvs) = ''{'' @ join '','' (stringify_props kvs) @ ''}''"
| "stringify_elems [] = []"
| "stringify_elems (x # xs) = stringify x # stringify_elems xs"
| "stringify_props [] = []"
| "stringify_props ((k, v) # kvs) = (quote_string k @ '':'' @ stringify v) # stringify_props kvs"

text \<open>
  The string the validator matches its patterns against: the string itself, the JSON text of
  an object or array, and \<open>String(value)\<close> for the other values.
\<close>

fun value_string :: "json \<Rightarrow> string" where
  "value_string (JStr s) = s"
| "value_string (JObj kvs) = stringify (JObj kvs)"
| "value_string (JArr xs) = stringify (JArr xs)"
| "value_string JNull = ''null''"
| "value_string (JBool b) = (if b then ''true'' else ''false'')"
| "value_string (JNum n) = show_int n"

text \<open>\<open>Object.entries\<close> of an object or an array (index keys).\<close>

fun indexed :: "nat \<Rightarrow> 'a list \<Rightarrow> (string \<times> 'a) list" where
  "indexed i [] = []"
| "indexed i (x # xs) = (show_nat i, x) # indexed (Suc i) xs"

section \<open>Regular expressions of the validator\<close>

text \<open>
  The patterns of \<open>SENSITIVE_PATTERNS\<close> use literals, character classes, greedy
  repetition of a class, groups with alternation, optional groups and \<open>\b\<close>. A cursor is
  the last character consumed (for \<open>\b\<close>) and the rest of the input; \<open>rmatch\<close> lists the
  cursors a pattern can stop at, in the order a backtracking matcher tries them, so its
  head is the match JavaScript reports.
\<close>

datatype rx =
    Lit string
  | Cls "char \<Rightarrow> bool"
  | Rep "char \<Rightarrow> bool" nat "nat option"
  | Seq rx rx
  | Alt rx rx
  | Opt rx
  | WordB

type_synonym cursor = "char option \<times> string"

definition is_word :: "char \<Rightarrow> bool" where
  "is_word c = (is_lower c \<or> is_upper c \<or> is_digit c \<or> c = CHR ''_'')"

text \<open>\<open>\s\<close>: below 256, the ASCII white space and the no-break space.\<close>

definition is_space :: "char \<Rightarrow> bool" where
  "is_space c = (c = CHR '' '' \<or> (CHR 0x09 \<le> c \<and> c \<le> CHR 0x0D) \<or> c = CHR 0xA0)"

definition canon :: "bool \<Rightarrow> char \<Rightarrow> char" where
  "canon ci c = (if ci then toUpperChar c else c)"

definition cls_ok :: "bool \<Rightarrow> (char \<Rightarrow> bool) \<Rightarrow> char \<Rightarrow> bool" where
  "cls_ok ci p c = (p c \<or> (ci \<and> (p (toLowerChar c) \<or> p (toUpperChar c))))"

fun lit_match :: "bool \<Rightarrow> string \<Rightarrow> char option \<Rightarrow> string \<Rightarrow> cursor option" where
  "lit_match ci [] prev s = Some (prev, s)"
| "lit_match ci (p # ps) prev [] = None"
| "lit_match ci (p # ps) prev (c # cs) =
     (if canon ci p = canon ci c then lit_match ci ps (Some c) cs else None)"

fun runs :: "bool \<Rightarrow> (char \<Rightarrow> bool) \<Rightarrow> char option \<Rightarrow> string \<Rightarrow> cursor list" where
  "runs ci p prev [] = [(prev, [])]"
| "runs ci p prev (c # cs) =
     (prev, c # cs) # (if cls_ok ci p c then runs ci p (Some c) cs else [])"

definition word_at :: "char option \<Rightarrow> bool" where
  "word_at c = (case c of None \<Rightarrow> False | Some x \<Rightarrow> is_word x)"

fun rmatch :: "bool \<Rightarrow> rx \<Rightarrow> cursor \<Rightarrow> cursor list" where
  "rmatch ci (Lit l) (prev, s) = (case lit_match ci l prev s of None \<Rightarrow> [] | Some c \<Rightarrow> [c])"
| "rmatch ci (Cls p) (prev, []) = []"
| "rmatch ci (Cls p) (prev, c # cs) = (if cls_ok ci p c then [(Some c, cs)] else [])"
| "rmatch ci (Rep p lo hi) (prev, s) =
     rev (drop lo (case hi of None \<Rightarrow> runs ci p prev s | Some h \<Rightarrow> take (Suc h) (runs ci p prev s)))"
| "rmatch ci (Seq a b) cur = concat (map (rmatch ci b) (rmatch ci a cur))"
| "rmatch ci (Alt a b) cur = rmatch ci a cur @ rmatch ci b cur"
| "rmatch ci (Opt a) cur = rmatch ci a cur @ [cur]"
| "rmatch ci WordB (prev, s) =
     (if word_at prev \<noteq> word_at (case s of [] \<Rightarrow> None | c # _ \<Rightarrow> Some c) then [(prev, s)] else [])"

text \<open>\<open>String.prototype.match\<close> without the \<open>g\<close> flag: the leftmost match, \<open>match[0]\<close>.\<close>

fun rx_exec :: "bool \<Rightarrow> rx \<Rightarrow> char option \<Rightarrow> string \<Rightarrow> string option" where
  "rx_exec ci r prev [] =
     (case rmatch ci r (prev, []) of [] \<Rightarrow> None | cur # _ \<Rightarrow> Some [])"
| "rx_exec ci r prev (c # cs) =
     (case rmatch ci r (prev, c # cs) of
        [] \<Rightarrow> rx_exec ci r (Some c) cs
      | cur # _ \<Rightarrow> Some (take (length (c # cs) - length (snd cur)) (c # cs)))"

record pattern =
  source :: string
  ignoreCase :: bool
  body :: rx

definition str_match :: "string \<Rightarrow> pattern \<Rightarrow> string option" where
  "str_match s p = rx_exec (ignoreCase p) (body p) None s"


fun seqs :: "rx list \<Rightarrow> rx" where
  "seqs [] = Lit []"
| "seqs [r] = r"
| "seqs (r # q # rs) = Seq r (seqs (q # rs))"

definition us_dash :: "char \<Rightarrow> bool" where
  "us_dash c = (c = CHR ''_'' \<or> c = CHR ''-'')"

definition word_dash :: "char \<Rightarrow> bool" where
  "word_dash c = (is_word c \<or> c = CHR ''-'')"

definition is_hex :: "char \<Rightarrow> bool" where
  "is_hex c = (is_digit c \<or> (CHR ''a'' \<le> c \<and> c \<le> CHR ''f''))"

text \<open>
  \<open>/\b(a[_-]?b|ab)\s*[:=]\s*["']?[\w-]{20,}/i\<close>, the shape of the five
  key-and-value patterns.
\<close>

definition keyed_source :: "string \<Rightarrow> string \<Rightarrow> string" where
  "keyed_source a b =
     BS # ''b('' @ a @ ''[_-]?'' @ b @ ''|'' @ a @ b @ '')'' @ BS # ''s*[:=]'' @ BS # ''s*['' @
     DQ # SQ # '']?['' @ BS # ''w-]{20,}''"

definition keyed_body :: "string \<Rightarrow> string \<Rightarrow> rx" where
  "keyed_body a b =
     seqs [WordB,
           Alt (seqs [Lit a, Opt (Cls us_dash), Lit b]) (Lit (a @ b)),
           Rep is_space 0 None,
           Cls (\<lambda>c. c = CHR '':'' \<or> c = CHR ''=''),
           Rep is_space 0 None,
           Opt (Cls (\<lambda>c. c = DQ \<or> c = SQ)),
           Rep word_dash 20 None]"

definition keyed_pattern :: "string \<Rightarrow> string \<Rightarrow> pattern" where
  "keyed_pattern a b = \<lparr>source = keyed_source a b, ignoreCase = True, body = keyed_body a b\<rparr>"

text \<open>\<open>/\bsk[-_][\w]{20,}/\<close>, the shape of the five prefix patterns.\<close>

definition prefix_pattern :: "string \<Rightarrow> pattern" where
  "prefix_pattern a =
     \<lparr>source = BS # ''b'' @ a @ ''[-_]['' @ BS # ''w]{20,}'',
      ignoreCase = False,
      body = seqs [WordB, Lit a, Cls us_dash, Rep is_word 20 None]\<rparr>"

text \<open>\<open>/mongodb(\+srv)?:\/\/[^:]+:[^@]+@/\<close>, the shape of the connection strings.\<close>

definition url_tail_source :: string where
  "url_tail_source = '':'' @ BS # ''/'' @ BS # ''/[^:]+:[^@]+@''"

definition url_tail :: "rx list" where
  "url_tail =
     [Lit ''://'', Rep (\<lambda>c. c \<noteq> CHR '':'') 1 None, Lit '':'',
      Rep (\<lambda>c. c \<noteq> CHR ''@'') 1 None, Lit ''@'']"

definition SENSITIVE_PATTERNS :: "pattern list" where
  "SENSITIVE_PATTERNS =
     [keyed_pattern ''api'' ''key'',
      keyed_pattern ''secret'' ''key'',
      keyed_pattern ''access'' ''key'',
      keyed_pattern ''private'' ''key'',
      prefix_pattern ''sk'',
      prefix_pattern ''pk'',
      prefix_pattern ''api'',
      prefix_pattern ''key'',
      prefix_pattern ''token'',
      \<lparr>source = BS # ''bBearer'' @ BS # ''s+['' @ BS # ''w-]+'' @ BS # ''.['' @ BS # ''w-]+'' @
                BS # ''.['' @ BS # ''w-]+'',
       ignoreCase = False,
       body = seqs [WordB, Lit ''Bearer'', Rep is_space 1 None, Rep word_dash 1 None, Lit ''.'',
                    Rep word_dash 1 None, Lit ''.'', Rep word_dash 1 None]\<rparr>,
      keyed_pattern ''oauth'' ''token'',
      \<lparr>source = ''mongodb('' @ BS # ''+srv)?'' @ url_tail_source,
       ignoreCase = False,
       body = seqs ([Lit ''mongodb'', Opt (Lit ''+srv'')] @ url_tail)\<rparr>,
      \<lparr>source = ''postgres(ql)?'' @ url_tail_source,
       ignoreCase = False,
       body = seqs ([Lit ''postgres'', Opt (Lit ''ql'')] @ url_tail)\<rparr>,
      \<lparr>source = ''mysql'' @ url_tail_source,
       ignoreCase = False,
       body = seqs (Lit ''mysql'' # url_tail)\<rparr>,
      \<lparr>source = BS # ''bAKIA[0-9A-Z]{16}'' @ BS # ''b'',
       ignoreCase = False,
       body = seqs [WordB, Lit ''AKIA'', Rep (\<lambda>c. is_digit c \<or> is_upper c) 16 (Some 16), WordB]\<rparr>,
      \<lparr>source = BS # ''b[0-9a-zA-Z/+=]{40}'' @ BS # ''b'',
       ignoreCase = False,
       body = seqs [WordB,
                    Rep (\<lambda>c. is_digit c \<or> is_lower c \<or> is_upper c \<or> c = CHR ''/'' \<or> c = CHR ''+'' \<or>
                             c = CHR ''='') 40 (Some 40),
                    WordB]\<rparr>,
      \<lparr>source = BS # ''bAIza[0-9A-Za-z-_]{35}'' @ BS # ''b'',
       ignoreCase = False,
       body = seqs [WordB, Lit ''AIza'',
                    Rep (\<lambda>c. is_digit c \<or> is_upper c \<or> is_lower c \<or> c = CHR ''-'' \<or> c = CHR ''_'')
                      35 (Some 35),
                    WordB]\<rparr>,
      \<lparr>source = BS # ''b[0-9a-f]{8}-[0-9a-f]{4}-[0-9a-f]{4}-[0-9a-f]{4}-[0-9a-f]{12}'' @ BS # ''b'',
       ignoreCase = True,
       body = seqs [WordB, Rep is_hex 8 (Some 8), Lit ''-'', Rep is_hex 4 (Some 4), Lit ''-'',
                    Rep is_hex 4 (Some 4), Lit ''-'', Rep is_hex 4 (Some 4), Lit ''-'',
                    Rep is_hex 12 (Some 12), WordB]\<rparr>]"

definition SENSITIVE_FIELD_NAMES :: "string list" where
  "SENSITIVE_FIELD_NAMES =
     [''password'', ''passwd'', ''pwd'',
      ''secret'', ''api_key'', ''apikey'', ''api-key'',
      ''access_key'', ''accesskey'', ''access-key'',
      ''private_key'', ''privatekey'', ''private-key'',
      ''auth_token'', ''authtoken'', ''auth-token'',
      ''oauth_token'', ''oauthtoken'', ''oauth-token'',
      ''bearer_token'', ''bearertoken'', ''bearer-token'',
      ''client_secret'', ''clientsecret'', ''client-secret'',
      ''encryption_key'', ''encryptionkey'', ''encryption-key'',
      ''signing_key'', ''signingkey'', ''signing-key'',
      ''ssh_key'', ''sshkey'', ''ssh-key'',
      ''certificate'', ''cert'',
      ''credentials'', ''creds'']"

section \<open>The sensitive-data validator\<close>

record ValidationResult =
  isValid :: bool
  warnings :: "string list"
  errors :: "string list"

definition getPatternDescription :: "pattern \<Rightarrow> string" where
  "getPatternDescription p =
     (let src = source p in
      if str_includes src ''sk[-_]'' then ''Stripe-like secret key''
      else if str_includes src ''pk[-_]'' then ''public/private key''
      else if str_includes src ''api[-_]'' then ''API key''
      else if str_includes src ''key[-_]'' then ''secret key''
      else if str_includes src ''token[-_]'' then ''access token''
      else if str_includes src ''Bearer'' then ''Bearer token''
      else if str_includes src ''AKIA'' then ''AWS access key''
      else if str_includes src ''AIza'' then ''Google API key''
      else if str_includes src ''mongodb'' \<or> str_includes src ''postgres'' \<or> str_includes src ''mysql''
        then ''database connection string''
      else if str_includes src ''oauth'' then ''OAuth token''
      else if str_includes src ''api[_-]?key'' then ''API key''
      else if str_includes src ''secret[_-]?key'' then ''secret key''
      else if str_includes src ''private[_-]?key'' then ''private key''
      else if str_includes src ''[0-9a-f]{8}-[0-9a-f]{4}'' then ''UUID (potential secret)''
      else ''sensitive data pattern'')"

definition push_error :: "string \<Rightarrow> ValidationResult \<Rightarrow> ValidationResult" where
  "push_error e r = r\<lparr>errors := errors r @ [e], isValid := False\<rparr>"

text \<open>The loop over \<open>SENSITIVE_FIELD_NAMES\<close>, run when \<open>key\<close> is a non-empty string.\<close>

fun check_field_names :: "string \<Rightarrow> string list \<Rightarrow> ValidationResult \<Rightarrow> ValidationResult" where
  "check_field_names key [] r = r"
| "check_field_names key (sensitiveField # rest) r =
     check_field_names key rest
       (if str_includes (toLowerCase key) sensitiveField
        then push_error (''Field name '' @ SQ # key @ SQ # '' suggests sensitive data (contains '' @
                         SQ # sensitiveField @ SQ # '')'') r
        else r)"

definition check_key :: "string option \<Rightarrow> ValidationResult \<Rightarrow> ValidationResult" where
  "check_key key r =
     (case key of
        None \<Rightarrow> r
      | Some k \<Rightarrow> if k = [] then r else check_field_names k SENSITIVE_FIELD_NAMES r)"

definition detectedValue :: "string \<Rightarrow> string" where
  "detectedValue m = take (min 20 (length m)) m @ (if length m > 20 then ''...'' else [])"

text \<open>The loop over \<open>SENSITIVE_PATTERNS\<close>.\<close>

fun check_patterns :: "string \<Rightarrow> pattern list \<Rightarrow> ValidationResult \<Rightarrow> ValidationResult" where
  "check_patterns valueStr [] r = r"
| "check_patterns valueStr (p # ps) r =
     check_patterns valueStr ps
       (case str_match valueStr p of
          None \<Rightarrow> r
        | Some m \<Rightarrow>
            push_error (''Detected '' @ getPatternDescription p @ '' in value: '' @
                        DQ # detectedValue m @ [DQ]) r)"

definition in_field :: "string \<Rightarrow> string \<Rightarrow> string" where
  "in_field k msg = ''In field '' @ SQ # k @ SQ # '': '' @ msg"

definition merge_sub :: "string \<Rightarrow> ValidationResult \<Rightarrow> ValidationResult \<Rightarrow> ValidationResult" where
  "merge_sub k subResult r =
     (let r' = (if \<not> isValid subResult
                then r\<lparr>errors := errors r @ map (in_field k) (errors subResult), isValid := False\<rparr>
                else r)
      in r'\<lparr>warnings := warnings r' @ map (in_field k) (warnings subResult)\<rparr>)"

definition alnum_dash :: "char \<Rightarrow> bool" where
  "alnum_dash c = (is_lower c \<or> is_upper c \<or> is_digit c \<or> c = CHR ''_'' \<or> c = CHR ''-'')"

definition warn_long :: "string \<Rightarrow> ValidationResult \<Rightarrow> ValidationResult" where
  "warn_long valueStr r =
     (if length valueStr > 20 \<and> valueStr \<noteq> [] \<and> list_all alnum_dash valueStr \<and> errors r = []
      then r\<lparr>warnings := warnings r @
                 [''Long alphanumeric string detected - ensure this is not a secret key'']\<rparr>
      else r)"

definition scan_value :: "json \<Rightarrow> string option \<Rightarrow> ValidationResult" where
  "scan_value v key =
     check_patterns (value_string v) SENSITIVE_PATTERNS
       (check_key key \<lparr>isValid = True, warnings = [], errors = []\<rparr>)"

fun validateForSensitiveData :: "json \<Rightarrow> string option \<Rightarrow> ValidationResult"
and validate_entries :: "(string \<times> json) list \<Rightarrow> ValidationResult \<Rightarrow> ValidationResult"
and validate_elems :: "nat \<Rightarrow> json list \<Rightarrow> ValidationResult \<Rightarrow> ValidationResult" where
  "validateForSensitiveData (JObj kvs) key =
     warn_long (value_string (JObj kvs)) (validate_entries kvs (scan_value (JObj kvs) key))"
| "validateForSensitiveData (JArr xs) key =
     warn_long (value_string (JArr xs)) (validate_elems 0 xs (scan_value (JArr xs) key))"
| "validateForSensitiveData v key = warn_long (value_string v) (scan_value v key)"
| "validate_entries [] r = r"
| "validate_entries ((k, v) # kvs) r =
     validate_entries kvs (merge_sub k (validateForSensitiveData v (Some k)) r)"
| "validate_elems i [] r = r"
| "validate_elems i (x # xs) r =
     validate_elems (Suc i) xs (merge_sub (show_nat i) (validateForSensitiveData x (Some (show_nat i))) r)"


section \<open>Data model of the context store\<close>

text \<open>
  The records follow the interfaces of \<open>brain-manager-v2.ts\<close>. An optional field is an
  \<open>option\<close> (\<open>None\<close> is a missing or \<open>undefined\<close> property). \<open>extraProps\<close> holds
  the properties of a project object that the interface does not name (a shallow merge can
  add them). Values have no identity in HOL, so the copy
  \<open>JSON.parse(JSON.stringify(project))\<close> of a record is the record; the sources never
  assign into a project object that the store, the stack or a proposal still holds (they
  assign into fresh copies only), so this loses no aliasing.
\<close>

record Decision =
  d_timestamp :: string
  decision :: string
  rationale :: string
  impact :: "string option"

record Milestone =
  m_timestamp :: string
  title :: string
  description :: string
  artifacts :: "string list option"

record Dependencies =
  obsidianNotes :: "string list option"
  codeFiles :: "string list option"
  relatedProjects :: "string list option"

record ProjectContext =
  projectName :: string
  status :: string
  created :: string
  lastModified :: string
  summary :: string
  currentFocus :: string
  openTasks :: "string list"
  completedTasks :: "string list"
  keyDecisions :: "Decision list"
  milestones :: "Milestone list"
  keyFiles :: "string list"
  dependencies :: "Dependencies option"
  metadata :: "(string \<times> json) list option"
  extraProps :: "(string \<times> json) list"

record SessionContext =
  s_timestamp :: string
  lastProject :: string
  lastActivity :: string
  conversationMode :: string
  s_openTasks :: "string list option"
  s_keyDecisions :: "string list option"

text \<open>
  The proposal's \<open>timestamp\<close> is the ISO text of a clock reading, and the sweep reads it
  back with \<open>new Date(prop.timestamp).getTime()\<close>; the model stores that instant, in
  milliseconds. The pending table holds values of this type: the plan entries that
  \<open>planProjectCreation\<close> files in the same table through a cast are left out.
\<close>

record UpdateProposal =
  p_id :: string
  p_type :: string
  p_timestamp :: int
  p_projectName :: string
  changesSummary :: string
  proposedContext :: ProjectContext
  originalUpdates :: json
  confirmationPrompt :: string

datatype instruction_args =
    CategoryKey string string
  | CategoryKeyProject string string ProjectContext
  | CategoryKeySession string string SessionContext

record BrainToolInstruction =
  tool :: string
  args :: instruction_args
  i_description :: string

definition stateGet :: "string \<Rightarrow> string \<Rightarrow> BrainToolInstruction" where
  "stateGet category key =
     \<lparr>tool = ''brain:state_get'', args = CategoryKey category key,
      i_description = ''Get '' @ category @ ''/'' @ key @ '' from state''\<rparr>"

definition stateSetProject :: "string \<Rightarrow> string \<Rightarrow> ProjectContext \<Rightarrow> BrainToolInstruction" where
  "stateSetProject category key v =
     \<lparr>tool = ''brain:state_set'', args = CategoryKeyProject category key v,
      i_description = ''Set '' @ category @ ''/'' @ key @ '' in state''\<rparr>"

definition stateSetSession :: "string \<Rightarrow> string \<Rightarrow> SessionContext \<Rightarrow> BrainToolInstruction" where
  "stateSetSession category key v =
     \<lparr>tool = ''brain:state_set'', args = CategoryKeySession category key v,
      i_description = ''Set '' @ category @ ''/'' @ key @ '' in state''\<rparr>"

record stack_frame =
  f_project :: ProjectContext
  f_timestamp :: string
  f_mode :: string

record state =
  currentProject :: "ProjectContext option"
  sessionContext :: "SessionContext option"
  projectStack :: "stack_frame list"
  pendingUpdates :: "string \<rightharpoonup> UpdateProposal"
  projectCache :: "string \<rightharpoonup> ProjectContext"

definition json_clone :: "ProjectContext \<Rightarrow> ProjectContext" where
  "json_clone p = p"

section \<open>Reading the untyped payloads\<close>

text \<open>
  \<open>Error\<close> is a thrown \<open>Error\<close> with its message and \<open>TypeError\<close> a thrown
  \<open>TypeError\<close>. \<open>IllTyped f\<close> marks a payload whose field \<open>f\<close> is truthy but not of the
  type the interfaces declare for it: the sources then store the value unchecked or throw a
  \<open>TypeError\<close>, and the typed model does not follow them further.
\<close>

datatype error = Error string | TypeError | IllTyped string

definition bind_err :: "error + 'a \<Rightarrow> ('a \<Rightarrow> error + 'b) \<Rightarrow> error + 'b" where
  "bind_err r f = (case r of Inl e \<Rightarrow> Inl e | Inr v \<Rightarrow> f v)"

text \<open>
  \<open>obj.k\<close> for the property names the manager reads: a \<open>TypeError\<close> on \<open>null\<close>,
  \<open>undefined\<close> on a value without the property.
\<close>

definition prop_read :: "json \<Rightarrow> string \<Rightarrow> error + json option" where
  "prop_read obj k =
     (case obj of JNull \<Rightarrow> Inl TypeError | JObj kvs \<Rightarrow> Inr (map_of kvs k) | _ \<Rightarrow> Inr None)"

definition expect_string :: "string \<Rightarrow> json \<Rightarrow> error + string" where
  "expect_string f v = (case v of JStr s \<Rightarrow> Inr s | _ \<Rightarrow> Inl (IllTyped f))"

fun strings_of :: "json list \<Rightarrow> string list option" where
  "strings_of [] = Some []"
| "strings_of (JStr s # xs) = (case strings_of xs of None \<Rightarrow> None | Some ss \<Rightarrow> Some (s # ss))"
| "strings_of (x # xs) = None"

definition expect_strings :: "string \<Rightarrow> json \<Rightarrow> error + string list" where
  "expect_strings f v =
     (case v of
        JArr xs \<Rightarrow> (case strings_of xs of None \<Rightarrow> Inl (IllTyped f) | Some ss \<Rightarrow> Inr ss)
      | _ \<Rightarrow> Inl (IllTyped f))"

text \<open>
  The two uses the progress update makes of a task list \<open>x\<close> of the payload:
  \<open>push(...x)\<close> and \<open>x.includes(task)\<close>. An array spreads into its elements and
  includes by equality; a string spreads into its characters and includes by substring; any
  other truthy value has neither an iterator nor \<open>includes\<close>, and the update throws. An
  array that holds something else than strings is pushed as it is, and the list is no longer
  one of strings.
\<close>

definition spread_strings :: "string \<Rightarrow> json \<Rightarrow> error + string list" where
  "spread_strings f v =
     (case v of
        JArr xs \<Rightarrow> (case strings_of xs of None \<Rightarrow> Inl (IllTyped f) | Some ss \<Rightarrow> Inr ss)
      | JStr s \<Rightarrow> Inr (map (\<lambda>c. [c]) s)
      | _ \<Rightarrow> Inl TypeError)"

definition includes_task :: "json \<Rightarrow> string \<Rightarrow> bool" where
  "includes_task v task =
     (case v of JArr xs \<Rightarrow> JStr task \<in> set xs | JStr s \<Rightarrow> str_includes s task | _ \<Rightarrow> False)"

text \<open>\<open>obj[k] = v\<close> on the property list: in place when the key exists, appended otherwise.\<close>

fun set_prop :: "(string \<times> json) list \<Rightarrow> string \<Rightarrow> json \<Rightarrow> (string \<times> json) list" where
  "set_prop [] k v = [(k, v)]"
| "set_prop ((k', v') # kvs) k v = (if k' = k then (k, v) # kvs else (k', v') # set_prop kvs k v)"

text \<open>\<open>String(v)\<close>, as a template literal renders a value.\<close>

fun js_String :: "json \<Rightarrow> string"
and js_String_elems :: "json list \<Rightarrow> string list" where
  "js_String JNull = ''null''"
| "js_String (JBool b) = (if b then ''true'' else ''false'')"
| "js_String (JNum n) = show_int n"
| "js_String (JStr s) = s"
| "js_String (JArr xs) = join '','' (js_String_elems xs)"
| "js_String (JObj kvs) = ''[object Object]''"
| "js_String_elems [] = []"
| "js_String_elems (x # xs) = (if x = JNull then [] else js_String x) # js_String_elems xs"

definition template_value :: "json option \<Rightarrow> string" where
  "template_value v = (case v of None \<Rightarrow> ''undefined'' | Some x \<Rightarrow> js_String x)"


section \<open>The update workflow: proposeUpdate\<close>

text \<open>
  What the environment answers during one call of \<open>proposeUpdate\<close>: the id of
  \<open>randomUUID()\<close>, the ISO text of the clock reading that stamps the content
  (\<open>lastModified\<close>, or the decision, milestone or insight), the instant of the reading that
  stamps the proposal, and \<open>Date.now()\<close> of the sweep.
\<close>

record update_env =
  uuid :: string
  contentStamp :: string
  proposalStamp :: int
  dateNow :: int

type_synonym draft = "ProjectContext \<times> string list"

definition complete_tasks :: "json \<Rightarrow> draft \<Rightarrow> error + draft" where
  "complete_tasks updates d =
     bind_err (prop_read updates ''completedTasks'') (\<lambda>v.
       case v of
         None \<Rightarrow> Inr d
       | Some x \<Rightarrow>
           if \<not> truthy (Some x) then Inr d
           else bind_err (spread_strings ''completedTasks'' x) (\<lambda>completed.
             Inr ((fst d)\<lparr>openTasks := filter (\<lambda>task. \<not> includes_task x task) (openTasks (fst d)),
                          completedTasks := completedTasks (fst d) @ completed\<rparr>,
                  snd d @ [''Completed '' @ show_nat (length completed) @ '' tasks''])))"

definition add_tasks :: "json \<Rightarrow> draft \<Rightarrow> error + draft" where
  "add_tasks updates d =
     bind_err (prop_read updates ''newTasks'') (\<lambda>v.
       case v of
         None \<Rightarrow> Inr d
       | Some x \<Rightarrow>
           if \<not> truthy (Some x) then Inr d
           else bind_err (spread_strings ''newTasks'' x) (\<lambda>newTasks.
             Inr ((fst d)\<lparr>openTasks := openTasks (fst d) @ newTasks\<rparr>,
                  snd d @ [''Added '' @ show_nat (length newTasks) @ '' new tasks''])))"

definition set_focus :: "json \<Rightarrow> draft \<Rightarrow> error + draft" where
  "set_focus updates d =
     bind_err (prop_read updates ''currentFocus'') (\<lambda>v.
       case v of
         None \<Rightarrow> Inr d
       | Some x \<Rightarrow>
           if \<not> truthy (Some x) then Inr d
           else bind_err (expect_string ''currentFocus'' x) (\<lambda>focus.
             Inr ((fst d)\<lparr>currentFocus := focus\<rparr>,
                  snd d @ [''Changed focus to: '' @ focus])))"

definition apply_progress :: "json \<Rightarrow> string \<Rightarrow> ProjectContext \<Rightarrow> error + draft" where
  "apply_progress updates now proposed =
     bind_err (complete_tasks updates (proposed\<lparr>lastModified := now\<rparr>, [])) (\<lambda>d1.
     bind_err (add_tasks updates d1) (\<lambda>d2.
     set_focus updates d2))"

text \<open>A field the interface requires, \<open>a || default\<close> on a string field, an optional field.\<close>

definition required_string :: "string \<Rightarrow> json option \<Rightarrow> error + string" where
  "required_string f v = (case v of None \<Rightarrow> Inl (IllTyped f) | Some x \<Rightarrow> expect_string f x)"

definition string_or :: "string \<Rightarrow> json option \<Rightarrow> string \<Rightarrow> error + string" where
  "string_or f v dflt =
     (case v of
        None \<Rightarrow> Inr dflt
      | Some x \<Rightarrow> if truthy (Some x) then expect_string f x else Inr dflt)"

definition optional_string :: "string \<Rightarrow> json option \<Rightarrow> error + string option" where
  "optional_string f v =
     (case v of None \<Rightarrow> Inr None | Some x \<Rightarrow> bind_err (expect_string f x) (\<lambda>s. Inr (Some s)))"

definition apply_decision :: "json \<Rightarrow> string \<Rightarrow> ProjectContext \<Rightarrow> error + draft" where
  "apply_decision updates now proposed =
     bind_err (prop_read updates ''decision'') (\<lambda>d.
     bind_err (prop_read updates ''rationale'') (\<lambda>r.
     bind_err (prop_read updates ''impact'') (\<lambda>i.
     bind_err (required_string ''decision'' d) (\<lambda>d'.
     bind_err (string_or ''rationale'' r ''No rationale provided'') (\<lambda>r'.
     bind_err (optional_string ''impact'' i) (\<lambda>i'.
       Inr (proposed\<lparr>keyDecisions := keyDecisions proposed @
                        [\<lparr>d_timestamp = now, decision = d', rationale = r', impact = i'\<rparr>]\<rparr>,
            [''Recorded decision: '' @ d'])))))))"

definition apply_milestone :: "json \<Rightarrow> string \<Rightarrow> ProjectContext \<Rightarrow> error + draft" where
  "apply_milestone updates now proposed =
     bind_err (prop_read updates ''title'') (\<lambda>t.
     bind_err (prop_read updates ''description'') (\<lambda>d.
     bind_err (prop_read updates ''artifacts'') (\<lambda>a.
     bind_err (required_string ''title'' t) (\<lambda>t'.
     bind_err (string_or ''description'' d []) (\<lambda>d'.
     bind_err (case a of
                 None \<Rightarrow> Inr []
               | Some x \<Rightarrow> if truthy (Some x) then expect_strings ''artifacts'' x else Inr []) (\<lambda>a'.
       Inr (proposed\<lparr>milestones := milestones proposed @
                        [\<lparr>m_timestamp = now, title = t', description = d', artifacts = Some a'\<rparr>]\<rparr>,
            [''Added milestone: '' @ t'])))))))"

text \<open>
  The insight goes into \<open>metadata.insights\<close>, which is untyped: the object and the array
  are created when they are missing or falsy, and \<open>push\<close> on a truthy value that is not an
  array throws.
\<close>

definition apply_insight :: "json \<Rightarrow> string \<Rightarrow> ProjectContext \<Rightarrow> error + draft" where
  "apply_insight updates now proposed =
     (let md0 = (case metadata proposed of None \<Rightarrow> [] | Some kvs \<Rightarrow> kvs);
          md1 = (if truthy (map_of md0 ''insights'') then md0 else set_prop md0 ''insights'' (JArr []))
      in case map_of md1 ''insights'' of
           Some (JArr xs) \<Rightarrow>
             bind_err (prop_read updates ''insight'') (\<lambda>i.
             bind_err (prop_read updates ''source'') (\<lambda>src.
               Inr (proposed\<lparr>metadata := Some (set_prop md1 ''insights''
                      (JArr (xs @ [JObj ([(''timestamp'', JStr now)] @
                                         (case i of None \<Rightarrow> [] | Some v \<Rightarrow> [(''insight'', v)]) @
                                         [(''source'', (case src of
                                                          None \<Rightarrow> JStr ''observation''
                                                        | Some v \<Rightarrow> if truthy (Some v) then v
                                                                    else JStr ''observation''))])])))\<rparr>,
                    [''Recorded insight: '' @ template_value i])))
         | _ \<Rightarrow> Inl TypeError)"

definition apply_update :: "string \<Rightarrow> json \<Rightarrow> string \<Rightarrow> ProjectContext \<Rightarrow> error + draft" where
  "apply_update updateType updates now proposed =
     (if updateType = ''progress'' then apply_progress updates now proposed
      else if updateType = ''decision'' then apply_decision updates now proposed
      else if updateType = ''milestone'' then apply_milestone updates now proposed
      else if updateType = ''insight'' then apply_insight updates now proposed
      else Inr (proposed, []))"

definition generateConfirmationPrompt :: "string \<Rightarrow> string list \<Rightarrow> ProjectContext \<Rightarrow> string" where
  "generateConfirmationPrompt updateType changes context' =
     [CHR 0xF0, CHR 0x9F, CHR 0x93, CHR 0x9D] @ '' Proposed '' @ updateType @ '' update for '' @
     SQ # projectName context' @ SQ # '':'' @ [NL, NL] @
     concat (map (\<lambda>change. ''  '' @ [CHR 0xE2, CHR 0x80, CHR 0xA2] @ '' '' @ change @ [NL]) changes) @
     NL # ''Confirm these changes?''"

text \<open>
  \<open>projectName ? this.projectCache.get(projectName) || this.currentProject
  : this.currentProject\<close>
\<close>

definition resolve_project :: "state \<Rightarrow> string option \<Rightarrow> ProjectContext option" where
  "resolve_project st name =
     (case name of
        None \<Rightarrow> currentProject st
      | Some n \<Rightarrow>
          if n = [] then currentProject st
          else (case projectCache st n of Some p \<Rightarrow> Some p | None \<Rightarrow> currentProject st))"

text \<open>The loop that deletes every pending proposal stamped before \<open>fiveMinutesAgo\<close>.\<close>

definition sweep :: "int \<Rightarrow> (string \<rightharpoonup> UpdateProposal) \<Rightarrow> (string \<rightharpoonup> UpdateProposal)" where
  "sweep fiveMinutesAgo pending =
     (\<lambda>i. case pending i of
             None \<Rightarrow> None
           | Some prop \<Rightarrow> if p_timestamp prop < fiveMinutesAgo then None else Some prop)"

definition validation_message :: "string list \<Rightarrow> string" where
  "validation_message errs =
     ''Security validation failed: '' @ join ''; '' errs @
     ''. Remove sensitive data like API keys, passwords, or tokens before storing.''"

definition proposeUpdate ::
  "state \<Rightarrow> string \<Rightarrow> json \<Rightarrow> string option \<Rightarrow> update_env \<Rightarrow> error + (UpdateProposal \<times> state)" where
  "proposeUpdate st updateType updates name env =
     (let validation = validateForSensitiveData updates None in
      if \<not> isValid validation then Inl (Error (validation_message (errors validation)))
      else
        case resolve_project st name of
          None \<Rightarrow>
            Inl (Error ''No project specified or loaded. Load a project first with loadSessionData()'')
        | Some project \<Rightarrow>
            bind_err (apply_update updateType updates (contentStamp env) (json_clone project))
              (\<lambda>(proposed, changesMade).
                 let proposal =
                       \<lparr>p_id = uuid env,
                        p_type = updateType,
                        p_timestamp = proposalStamp env,
                        p_projectName = projectName project,
                        changesSummary = join '' | '' changesMade,
                        proposedContext = proposed,
                        originalUpdates = updates,
                        confirmationPrompt =
                          generateConfirmationPrompt updateType changesMade proposed\<rparr>;
                     fiveMinutesAgo = dateNow env - 5 * 60 * 1000
                 in Inr (proposal,
                         st\<lparr>pendingUpdates :=
                              sweep fiveMinutesAgo ((pendingUpdates st)(p_id proposal \<mapsto> proposal))\<rparr>)))"

section \<open>The update workflow: confirmUpdate\<close>

text \<open>
  \<open>{ ...finalContext, ...modifications }\<close>: the own properties of \<open>modifications\<close>, in
  order, each assigned over the proposed context. A property the interface names must have
  the interface's type to stay in the typed model; any other property is kept in
  \<open>extraProps\<close>.
\<close>

fun own_entries :: "json \<Rightarrow> (string \<times> json) list" where
  "own_entries (JObj kvs) = kvs"
| "own_entries (JArr xs) = indexed 0 xs"
| "own_entries (JStr s) = indexed 0 (map (\<lambda>c. JStr [c]) s)"
| "own_entries v = []"

definition optional_strings :: "string \<Rightarrow> json option \<Rightarrow> error + string list option" where
  "optional_strings f v =
     (case v of None \<Rightarrow> Inr None | Some x \<Rightarrow> bind_err (expect_strings f x) (\<lambda>ss. Inr (Some ss)))"

definition known_keys :: "string list \<Rightarrow> (string \<times> json) list \<Rightarrow> bool" where
  "known_keys ks kvs = list_all (\<lambda>kv. fst kv \<in> set ks) kvs"

definition decode_decision :: "json \<Rightarrow> error + Decision" where
  "decode_decision v =
     (case v of
        JObj kvs \<Rightarrow>
          if \<not> known_keys [''timestamp'', ''decision'', ''rationale'', ''impact''] kvs
          then Inl (IllTyped ''keyDecisions'')
          else
            bind_err (required_string ''keyDecisions'' (map_of kvs ''timestamp'')) (\<lambda>t.
            bind_err (required_string ''keyDecisions'' (map_of kvs ''decision'')) (\<lambda>d.
            bind_err (required_string ''keyDecisions'' (map_of kvs ''rationale'')) (\<lambda>r.
            bind_err (optional_string ''keyDecisions'' (map_of kvs ''impact'')) (\<lambda>i.
              Inr \<lparr>d_timestamp = t, decision = d, rationale = r, impact = i\<rparr>))))
      | _ \<Rightarrow> Inl (IllTyped ''keyDecisions''))"

definition decode_milestone :: "json \<Rightarrow> error + Milestone" where
  "decode_milestone v =
     (case v of
        JObj kvs \<Rightarrow>
          if \<not> known_keys [''timestamp'', ''title'', ''description'', ''artifacts''] kvs
          then Inl (IllTyped ''milestones'')
          else
            bind_err (required_string ''milestones'' (map_of kvs ''timestamp'')) (\<lambda>t.
            bind_err (required_string ''milestones'' (map_of kvs ''title'')) (\<lambda>ti.
            bind_err (required_string ''milestones'' (map_of kvs ''description'')) (\<lambda>d.
            bind_err (optional_strings ''milestones'' (map_of kvs ''artifacts'')) (\<lambda>a.
              Inr \<lparr>m_timestamp = t, title = ti, description = d, artifacts = a\<rparr>))))
      | _ \<Rightarrow> Inl (IllTyped ''milestones''))"

definition decode_dependencies :: "json \<Rightarrow> error + Dependencies" where
  "decode_dependencies v =
     (case v of
        JObj kvs \<Rightarrow>
          if \<not> known_keys [''obsidianNotes'', ''codeFiles'', ''relatedProjects''] kvs
          then Inl (IllTyped ''dependencies'')
          else
            bind_err (optional_strings ''dependencies'' (map_of kvs ''obsidianNotes'')) (\<lambda>n.
            bind_err (optional_strings ''dependencies'' (map_of kvs ''codeFiles'')) (\<lambda>c.
            bind_err (optional_strings ''dependencies'' (map_of kvs ''relatedProjects'')) (\<lambda>r.
              Inr \<lparr>obsidianNotes = n, codeFiles = c, relatedProjects = r\<rparr>)))
      | _ \<Rightarrow> Inl (IllTyped ''dependencies''))"

fun decode_all :: "(json \<Rightarrow> error + 'a) \<Rightarrow> json list \<Rightarrow> error + 'a list" where
  "decode_all f [] = Inr []"
| "decode_all f (x # xs) = bind_err (f x) (\<lambda>y. bind_err (decode_all f xs) (\<lambda>ys. Inr (y # ys)))"

definition decode_array :: "string \<Rightarrow> (json \<Rightarrow> error + 'a) \<Rightarrow> json \<Rightarrow> error + 'a list" where
  "decode_array f dec v = (case v of JArr xs \<Rightarrow> decode_all dec xs | _ \<Rightarrow> Inl (IllTyped f))"

text \<open>
  After the merge \<open>confirmUpdate\<close> evaluates \<open>finalContext.openTasks.slice(0, 5)\<close> and
  \<open>finalContext.keyDecisions.slice(-3).map(d => d.decision)\<close>. A replacement of
  \<open>openTasks\<close> without \<open>slice\<close>, a replacement of \<open>keyDecisions\<close> without
  \<open>slice\<close> and \<open>map\<close>, or a \<open>null\<close> among the last three decisions makes that
  throw a \<open>TypeError\<close>; the model reports it where the property is assigned.
\<close>

definition assign_openTasks :: "json \<Rightarrow> ProjectContext \<Rightarrow> error + ProjectContext" where
  "assign_openTasks v c =
     (case v of
        JArr xs \<Rightarrow> (case strings_of xs of
                     Some ss \<Rightarrow> Inr (c\<lparr>openTasks := ss\<rparr>)
                   | None \<Rightarrow> Inl (IllTyped ''openTasks''))
      | JStr s \<Rightarrow> Inl (IllTyped ''openTasks'')
      | _ \<Rightarrow> Inl TypeError)"

definition assign_keyDecisions :: "json \<Rightarrow> ProjectContext \<Rightarrow> error + ProjectContext" where
  "assign_keyDecisions v c =
     (case v of
        JArr xs \<Rightarrow> (case decode_all decode_decision xs of
                     Inr ds \<Rightarrow> Inr (c\<lparr>keyDecisions := ds\<rparr>)
                   | Inl e \<Rightarrow> if JNull \<in> set (drop (length xs - 3) xs) then Inl TypeError
                             else Inl (IllTyped ''keyDecisions''))
      | _ \<Rightarrow> Inl TypeError)"

definition assign_prop :: "string \<Rightarrow> json \<Rightarrow> ProjectContext \<Rightarrow> error + ProjectContext" where
  "assign_prop k v c =
     (if k = ''projectName'' then bind_err (expect_string k v) (\<lambda>s. Inr (c\<lparr>projectName := s\<rparr>))
      else if k = ''status'' then bind_err (expect_string k v) (\<lambda>s. Inr (c\<lparr>status := s\<rparr>))
      else if k = ''created'' then bind_err (expect_string k v) (\<lambda>s. Inr (c\<lparr>created := s\<rparr>))
      else if k = ''lastModified'' then bind_err (expect_string k v) (\<lambda>s. Inr (c\<lparr>lastModified := s\<rparr>))
      else if k = ''summary'' then bind_err (expect_string k v) (\<lambda>s. Inr (c\<lparr>summary := s\<rparr>))
      else if k = ''currentFocus'' then bind_err (expect_string k v) (\<lambda>s. Inr (c\<lparr>currentFocus := s\<rparr>))
      else if k = ''openTasks'' then assign_openTasks v c
      else if k = ''completedTasks'' then
        bind_err (expect_strings k v) (\<lambda>s. Inr (c\<lparr>completedTasks := s\<rparr>))
      else if k = ''keyDecisions'' then assign_keyDecisions v c
      else if k = ''milestones'' then
        bind_err (decode_array k decode_milestone v) (\<lambda>s. Inr (c\<lparr>milestones := s\<rparr>))
      else if k = ''keyFiles'' then bind_err (expect_strings k v) (\<lambda>s. Inr (c\<lparr>keyFiles := s\<rparr>))
      else if k = ''dependencies'' then
        bind_err (decode_dependencies v) (\<lambda>d. Inr (c\<lparr>dependencies := Some d\<rparr>))
      else if k = ''metadata'' then
        (case v of JObj kvs \<Rightarrow> Inr (c\<lparr>metadata := Some kvs\<rparr>) | _ \<Rightarrow> Inl (IllTyped k))
      else Inr (c\<lparr>extraProps := set_prop (extraProps c) k v\<rparr>))"

fun assign_all :: "(string \<times> json) list \<Rightarrow> ProjectContext \<Rightarrow> error + ProjectContext" where
  "assign_all [] c = Inr c"
| "assign_all ((k, v) # kvs) c = bind_err (assign_prop k v c) (assign_all kvs)"

definition apply_modifications :: "ProjectContext \<Rightarrow> json option \<Rightarrow> error + ProjectContext" where
  "apply_modifications finalContext modifications =
     (case modifications of
        None \<Rightarrow> Inr finalContext
      | Some m \<Rightarrow> if truthy (Some m) then assign_all (own_entries m) finalContext
                  else Inr finalContext)"

record confirm_result =
  c_success :: bool
  c_message :: string
  c_instructions :: "BrainToolInstruction list"

definition session_update :: "UpdateProposal \<Rightarrow> ProjectContext \<Rightarrow> string \<Rightarrow> SessionContext" where
  "session_update proposal finalContext now =
     \<lparr>s_timestamp = now,
      lastProject = p_projectName proposal,
      lastActivity = changesSummary proposal,
      conversationMode = ''project_management'',
      s_openTasks = Some (take 5 (openTasks finalContext)),
      s_keyDecisions =
        Some (map decision (drop (length (keyDecisions finalContext) - 3) (keyDecisions finalContext)))\<rparr>"

definition confirmUpdate ::
  "state \<Rightarrow> string \<Rightarrow> json option \<Rightarrow> string \<Rightarrow> error + (confirm_result \<times> state)" where
  "confirmUpdate st updateId modifications now =
     (case pendingUpdates st updateId of
        None \<Rightarrow>
          Inr (\<lparr>c_success = False,
                c_message = ''Update proposal not found or expired'',
                c_instructions = []\<rparr>, st)
      | Some proposal \<Rightarrow>
          bind_err (apply_modifications (proposedContext proposal) modifications) (\<lambda>finalContext.
            let sessionUpdate = session_update proposal finalContext now in
            Inr (\<lparr>c_success = True,
                  c_message = ''Successfully applied '' @ p_type proposal @ '' update to '' @
                              p_projectName proposal,
                  c_instructions =
                    [stateSetProject ''project'' (p_projectName proposal) finalContext,
                     stateSetSession ''system'' ''last_session_context'' sessionUpdate]\<rparr>,
                 st\<lparr>projectCache := (projectCache st)(p_projectName proposal \<mapsto> finalContext),
                    currentProject := Some finalContext,
                    sessionContext := Some sessionUpdate,
                    pendingUpdates := (pendingUpdates st)(updateId := None)\<rparr>)))"

section \<open>The context store: switchProject and returnToPrevious\<close>

definition createProjectFromTemplate :: "string \<Rightarrow> string option \<Rightarrow> string \<Rightarrow> ProjectContext" where
  "createProjectFromTemplate name template now =
     (let baseProject =
            \<lparr>projectName = name, status = ''active'', created = now, lastModified = now,
             summary = [], currentFocus = [], openTasks = [], completedTasks = [],
             keyDecisions = [], milestones = [], keyFiles = [],
             dependencies = None, metadata = None, extraProps = []\<rparr>
      in if template = Some ''software'' then
           baseProject\<lparr>summary := ''Software development project'',
                       metadata := Some [(''techStack'', JArr []),
                                         (''architecture'',
                                          JObj [(''type'', JStr []), (''components'', JArr [])]),
                                         (''testingStrategy'', JStr [])]\<rparr>
         else if template = Some ''research'' then
           baseProject\<lparr>summary := ''Research project'',
                       metadata := Some [(''researchQuestions'', JArr []),
                                         (''hypotheses'', JArr []),
                                         (''methodology'', JStr []),
                                         (''dataSources'', JArr [])]\<rparr>
         else if template = Some ''ml'' then
           baseProject\<lparr>summary := ''Machine learning project'',
                       metadata := Some [(''problemType'', JStr []),
                                         (''datasets'', JArr []),
                                         (''models'', JArr []),
                                         (''metrics'', JObj [])]\<rparr>
         else if template = Some ''writing'' then
           baseProject\<lparr>summary := ''Writing project'',
                       metadata := Some [(''type'', JStr []),
                                         (''outline'', JArr []),
                                         (''wordCount'', JNum 0),
                                         (''targetAudience'', JStr [])]\<rparr>
         else baseProject)"

record switch_result =
  s_success :: bool
  s_project :: "ProjectContext option"
  s_message :: string
  s_instructions :: "BrainToolInstruction list"

text \<open>
  The two clock readings of \<open>switchProject\<close>: the stamp of the stack frame and the
  \<open>now\<close> of a created project.
\<close>

definition push_current :: "state \<Rightarrow> string \<Rightarrow> stack_frame list" where
  "push_current st frameStamp =
     (case currentProject st of
        None \<Rightarrow> projectStack st
      | Some cur \<Rightarrow>
          projectStack st @
          [\<lparr>f_project = json_clone cur,
            f_timestamp = frameStamp,
            f_mode = (case sessionContext st of
                        None \<Rightarrow> ''unknown''
                      | Some s \<Rightarrow> if conversationMode s = [] then ''unknown''
                                  else conversationMode s)\<rparr>])"

definition switchProject ::
  "state \<Rightarrow> string \<Rightarrow> bool \<Rightarrow> string option \<Rightarrow> ProjectContext option \<Rightarrow> string \<Rightarrow> string \<Rightarrow>
   switch_result \<times> state" where
  "switchProject st name createIfNotExists template existingProjectData frameStamp createStamp =
     (let st1 = st\<lparr>projectStack := push_current st frameStamp\<rparr>;
          found = (case projectCache st1 name of Some p \<Rightarrow> Some p | None \<Rightarrow> existingProjectData)
      in case found of
           None \<Rightarrow>
             if createIfNotExists then
               (let created' = createProjectFromTemplate name template createStamp in
                (\<lparr>s_success = True, s_project = Some created',
                  s_message = ''Switched to project: '' @ name,
                  s_instructions = [stateSetProject ''project'' name created']\<rparr>,
                 st1\<lparr>currentProject := Some created',
                     projectCache := (projectCache st1)(name \<mapsto> created')\<rparr>))
             else
               (\<lparr>s_success = False, s_project = None,
                 s_message = ''Project '' @ SQ # name @ SQ #
                             '' not in cache. Execute the instruction to load it.'',
                 s_instructions = [stateGet ''project'' name]\<rparr>, st1)
         | Some p \<Rightarrow>
             (\<lparr>s_success = True, s_project = Some p,
               s_message = ''Switched to project: '' @ name,
               s_instructions = []\<rparr>,
              st1\<lparr>currentProject := Some p, projectCache := (projectCache st1)(name \<mapsto> p)\<rparr>))"

record return_result =
  r_success :: bool
  r_project :: "ProjectContext option"
  r_message :: string

definition returnToPrevious :: "state \<Rightarrow> return_result \<times> state" where
  "returnToPrevious st =
     (case rev (projectStack st) of
        [] \<Rightarrow> (\<lparr>r_success = False, r_project = None, r_message = ''No previous project in stack''\<rparr>, st)
      | previous # below \<Rightarrow>
          (\<lparr>r_success = True, r_project = Some (f_project previous),
            r_message = ''Returned to project: '' @ projectName (f_project previous) @
                        '' (saved at '' @ f_timestamp previous @ '')''\<rparr>,
           st\<lparr>projectStack := rev below,
              currentProject := Some (f_project previous),
              projectCache := (projectCache st)(projectName (f_project previous) \<mapsto> f_project previous)\<rparr>))"


section \<open>The semantic router\<close>

text \<open>
  Scores and confidences are JavaScript numbers; the model computes them in the reals
  (\<open>sqrt\<close> is the real square root), which is exact for the constants the classifier
  returns and for comparisons of exactly representable values.
\<close>

record ConversationContext =
  c_lastProject :: "string option"
  conversationHistory :: "(string \<times> string) list option"
  recentDecisions :: "string list option"

record ClassificationResult =
  mode :: string
  confidence :: real
  reasoning :: string

definition modes :: "string list" where
  "modes = [''project_continuation'', ''project_management'', ''research'', ''analysis'',
            ''help'', ''tarot'', ''general_assistant'']"

definition continuationSignals :: "string list" where
  "continuationSignals = [''continue'', ''let'' @ SQ # ''s'', ''keep'', ''next'', ''now'',
                          ''then'', ''also'', ''resume'', ''back to'', ''where were we'']"

text \<open>\<open>context?.lastProject\<close> when it is truthy.\<close>

definition active_project :: "ConversationContext option \<Rightarrow> string option" where
  "active_project context' =
     (case context' of
        None \<Rightarrow> None
      | Some c \<Rightarrow> (case c_lastProject c of
                     None \<Rightarrow> None
                   | Some p \<Rightarrow> if p = [] then None else Some p))"

text \<open>\<open>message.split(/\s+/)\<close>\<close>

function split_ws :: "string \<Rightarrow> string \<Rightarrow> string list" where
  "split_ws cur [] = [cur]"
| "split_ws cur (c # cs) =
     (if is_space c then cur # split_ws [] (dropWhile is_space cs) else split_ws (cur @ [c]) cs)"
  by pat_completeness auto
termination
  by (relation "measure (\<lambda>(cur, s). length s)") (auto simp: length_dropWhile_le less_Suc_eq_le)

fun keyword_points :: "string \<Rightarrow> string list \<Rightarrow> string list \<Rightarrow> nat" where
  "keyword_points message ws [] = 0"
| "keyword_points message ws (keyword # rest) =
     (if str_includes keyword '' ''
      then (if str_includes message keyword then 2 else 0)
      else (if list_ex (\<lambda>word. str_includes word keyword) ws then 1 else 0)) +
     keyword_points message ws rest"

definition scoreKeywords :: "string \<Rightarrow> string list \<Rightarrow> real" where
  "scoreKeywords message keywords =
     (let ws = split_ws [] message
      in real (keyword_points message ws keywords) / sqrt (real (length ws)))"

definition calculateModeScores :: "string \<Rightarrow> (string \<times> real) list" where
  "calculateModeScores message =
     [(''project_management'',
       scoreKeywords message
         [''project'', ''build'', ''create'', ''implement'', ''develop'', ''code'', ''fix'',
          ''debug'', ''feature'', ''bug'', ''deploy'', ''test'', ''refactor'', ''architecture'',
          ''design'']),
      (''research'',
       scoreKeywords message
         [''research'', ''learn'', ''explore'', ''investigate'', ''study'', ''how does'',
          ''what is'', ''explain'', ''understand'', ''compare'', ''pros and cons'',
          ''best practices'', ''tutorial'']),
      (''analysis'',
       scoreKeywords message
         [''analyze'', ''analysis'', ''pattern'', ''insight'', ''trend'', ''connection'',
          ''relationship'', ''correlation'', ''statistics'', ''metrics'', ''performance'',
          ''optimize'']),
      (''help'',
       scoreKeywords message
         [''help'', ''how do i'', ''how to'', ''guide'', ''documentation'', ''confused'',
          ''stuck'', ''problem'', ''issue'', ''error'']),
      (''tarot'',
       scoreKeywords message
         [''tarot'', ''reading'', ''spread'', ''cards'', ''divination'', ''fortune'', ''future'',
          ''guidance'', ''spiritual'']),
      (''general_assistant'', 1 / 10)]"

fun pick_best :: "(string \<times> real) list \<Rightarrow> string \<times> real \<Rightarrow> string \<times> real" where
  "pick_best [] best = best"
| "pick_best ((m, score) # rest) (bestMode, bestScore) =
     pick_best rest (if score > bestScore then (m, score) else (bestMode, bestScore))"

text \<open>
  \<open>Math.max()\<close> of no value is \<open>-Infinity\<close>: the margin is then infinite and the ratio
  negative zero, which gives 0.6. A mode without a score gives \<open>NaN\<close> comparisons, 0.45.
\<close>

definition calculateConfidence :: "(string \<times> real) list \<Rightarrow> string \<Rightarrow> real" where
  "calculateConfidence scores bestMode =
     (case map_of scores bestMode of
        None \<Rightarrow> 45 / 100
      | Some bestScore \<Rightarrow>
          if bestScore = 0 then 3 / 10
          else
            (case filter (\<lambda>v. v \<noteq> bestScore) (map snd scores) of
               [] \<Rightarrow> 6 / 10
             | v # vs \<Rightarrow>
                 (let secondBest = Max (set (v # vs));
                      margin = bestScore - secondBest;
                      relative = bestScore / (secondBest + 1 / 100)
                  in if margin > 1 \<and> relative > 2 then 9 / 10
                     else if margin > 1 / 2 \<and> relative > 3 / 2 then 75 / 100
                     else if margin > 1 / 4 then 6 / 10
                     else 45 / 100)))"

definition performClassification :: "string \<Rightarrow> ConversationContext option \<Rightarrow> ClassificationResult" where
  "performClassification messageLower context' =
     (case (if str_includes messageLower ''switch to''
            then find (\<lambda>m. str_includes messageLower (replace_first m ''_'' '' '')) modes
            else None) of
        Some m \<Rightarrow> \<lparr>mode = m, confidence = 95 / 100, reasoning = ''Explicit mode switch requested''\<rparr>
      | None \<Rightarrow>
          if active_project context' \<noteq> None \<and>
             list_ex (\<lambda>signal. str_includes messageLower signal) continuationSignals
          then \<lparr>mode = ''project_continuation'', confidence = 85 / 100,
                reasoning = ''Continuation signal detected with active project''\<rparr>
          else
            (let modeScores = calculateModeScores messageLower;
                 bestMode = fst (pick_best modeScores (''general_assistant'', 0))
             in \<lparr>mode = bestMode, confidence = calculateConfidence modeScores bestMode,
                 reasoning = []\<rparr>))"

definition keywordMap :: "(string \<times> string list) list" where
  "keywordMap =
     [(''project_management'', [''build'', ''create'', ''implement'', ''code'', ''fix'']),
      (''research'', [''learn'', ''explore'', ''how does'', ''what is'']),
      (''analysis'', [''analyze'', ''pattern'', ''insight'', ''trend'']),
      (''help'', [''help'', ''how do i'', ''guide'']),
      (''tarot'', [''tarot'', ''reading'', ''cards''])]"

definition getDetectedKeywords :: "string \<Rightarrow> string \<Rightarrow> string list" where
  "getDetectedKeywords message m =
     take 3 (filter (\<lambda>keyword. str_includes (toLowerCase message) keyword)
               (case map_of keywordMap m of None \<Rightarrow> [] | Some ks \<Rightarrow> ks))"

definition generateReasoning ::
  "string \<Rightarrow> string \<Rightarrow> real \<Rightarrow> ConversationContext option \<Rightarrow> string" where
  "generateReasoning message m conf context' =
     join ''. ''
       ((case active_project context' of
           None \<Rightarrow> []
         | Some p \<Rightarrow> if m = ''project_continuation''
                     then [''Detected continuation intent for project '' @ SQ # p @ [SQ]] else []) @
        (let keywords = getDetectedKeywords message m
         in if keywords = [] then []
            else [''Found '' @ m @ '' indicators: '' @ join '', '' keywords]) @
        (if conf > 8 / 10 then [''High confidence based on clear intent signals'']
         else if conf < 1 / 2 then [''Low confidence - consider clarifying intent'']
         else []) @
        (case context' of
           None \<Rightarrow> []
         | Some c \<Rightarrow> (case conversationHistory c of
                        None \<Rightarrow> []
                      | Some h \<Rightarrow> if h = [] then []
                                  else [''Considered conversation history for context''])))"

definition classify :: "string \<Rightarrow> ConversationContext option \<Rightarrow> ClassificationResult" where
  "classify message context' =
     (let classification = performClassification (toLowerCase message) context'
      in classification\<lparr>reasoning :=
           generateReasoning message (mode classification) (confidence classification) context'\<rparr>)"


section \<open>Runs of the workflow\<close>

text \<open>
  The store after a call. \<open>proposeUpdate\<close> assigns to no field of the manager before its
  last \<open>throw\<close>, so a call that throws leaves the store as it was. \<open>confirmUpdate\<close>
  throws only on modifications that break the declared types; the source has then already
  stored the merged object as the cached and the current project, a store this typed model
  cannot hold. \<open>state_after\<close> keeps the store of before the call there, and equally after
  a payload that leaves the declared types (\<open>IllTyped\<close>): from such a call on a run of
  the model is no longer a run of the manager, and \<open>typed_op\<close> below tells the calls that
  the model follows.
\<close>

definition state_after :: "state \<Rightarrow> error + ('a \<times> state) \<Rightarrow> state" where
  "state_after st r = (case r of Inl e \<Rightarrow> st | Inr (x, st') \<Rightarrow> st')"

datatype op =
    Propose string json "string option" update_env
  | Confirm string "json option" string

fun run_op :: "state \<Rightarrow> op \<Rightarrow> state" where
  "run_op st (Propose updateType updates name env) =
     state_after st (proposeUpdate st updateType updates name env)"
| "run_op st (Confirm updateId modifications now) =
     state_after st (confirmUpdate st updateId modifications now)"

definition run_ops :: "state \<Rightarrow> op list \<Rightarrow> state" where
  "run_ops st ops = foldl run_op st ops"

text \<open>
  The payloads whose numbers are safe integers (\<open>Number.isSafeInteger\<close>), which
  \<open>String\<close> and \<open>JSON.stringify\<close> print digit for digit.
\<close>

fun safe_integers :: "json \<Rightarrow> bool"
and safe_integers_elems :: "json list \<Rightarrow> bool"
and safe_integers_props :: "(string \<times> json) list \<Rightarrow> bool" where
  "safe_integers (JNum n) = (\<bar>n\<bar> < 2 ^ 53)"
| "safe_integers (JArr xs) = safe_integers_elems xs"
| "safe_integers (JObj kvs) = safe_integers_props kvs"
| "safe_integers v = True"
| "safe_integers_elems [] = True"
| "safe_integers_elems (x # xs) = (safe_integers x \<and> safe_integers_elems xs)"
| "safe_integers_props [] = True"
| "safe_integers_props ((k, v) # kvs) = (safe_integers v \<and> safe_integers_props kvs)"

text \<open>
  A call that the typed model follows: a \<open>proposeUpdate\<close> whose payload holds safe
  integers only and does not leave the declared types, whether it returns or throws; a
  \<open>confirmUpdate\<close> that returns, which it does when the proposal is not pending and when
  the merged object has the declared types.
\<close>

definition leaves_types :: "error + 'a \<Rightarrow> bool" where
  "leaves_types r =
     (case r of Inl e \<Rightarrow> (case e of IllTyped f \<Rightarrow> True | _ \<Rightarrow> False) | Inr v \<Rightarrow> False)"

fun typed_op :: "state \<Rightarrow> op \<Rightarrow> bool" where
  "typed_op st (Propose updateType updates name env) =
     (safe_integers updates \<and> \<not> leaves_types (proposeUpdate st updateType updates name env))"
| "typed_op st (Confirm updateId modifications now) =
     (case confirmUpdate st updateId modifications now of Inl e \<Rightarrow> False | Inr r \<Rightarrow> True)"


text \<open>The clock did not advance five minutes between the two readings of one call.\<close>

definition survives_own_sweep :: "update_env \<Rightarrow> bool" where
  "survives_own_sweep env = (dateNow env - 5 * 60 * 1000 \<le> proposalStamp env)"


section \<open>The disjointness invariant\<close>



text \<open>
  The tasks that the progress update pushes from a field of the payload (none when the
  field is missing or falsy, and when the update does not return), and the calls that
  cannot put a task on both lists: a progress update whose new tasks are neither completed
  in the target nor completed by the same update, and a confirmation whose modifications
  name neither task list. A run is safe when each of its calls is one that the model
  follows and cannot put a task on both lists, in the store that the calls before it have
  left.
\<close>

definition payload_strings :: "json \<Rightarrow> string \<Rightarrow> string list" where
  "payload_strings updates k =
     (case prop_read updates k of
        Inr (Some x) \<Rightarrow>
          if truthy (Some x) then (case spread_strings k x of Inr ss \<Rightarrow> ss | Inl e \<Rightarrow> []) else []
      | _ \<Rightarrow> [])"

fun safe_op :: "state \<Rightarrow> op \<Rightarrow> bool" where
  "safe_op st (Propose updateType updates name env) =
     (updateType = ''progress'' \<longrightarrow>
        (case resolve_project st name of
           None \<Rightarrow> True
         | Some target \<Rightarrow>
             set (payload_strings updates ''newTasks'') \<inter>
             (set (completedTasks target) \<union> set (payload_strings updates ''completedTasks'')) = {}))"
| "safe_op st (Confirm updateId modifications now) =
     (case modifications of
        None \<Rightarrow> True
      | Some m \<Rightarrow> ''openTasks'' \<notin> fst ` set (own_entries m) \<and>
                  ''completedTasks'' \<notin> fst ` set (own_entries m))"


section \<open>A concrete store\<close>


definition demo_project :: ProjectContext where
  "demo_project =
     \<lparr>projectName = ''demo'', status = ''active'',
      created = ''1970-01-01T00:00:00.000Z'', lastModified = ''1970-01-01T00:00:00.000Z'',
      summary = ''Demo'', currentFocus = ''Start'',
      openTasks = [''a'', ''b''], completedTasks = [''c''],
      keyDecisions = [], milestones = [], keyFiles = [],
      dependencies = None, metadata = None, extraProps = []\<rparr>"

definition demo_state :: state where
  "demo_state =
     \<lparr>currentProject = Some demo_project, sessionContext = None, projectStack = [],
      pendingUpdates = Map.empty, projectCache = [''demo'' \<mapsto> demo_project]\<rparr>"

definition demo_env :: update_env where
  "demo_env = \<lparr>uuid = ''u1'', contentStamp = ''1970-01-01T00:01:00.000Z'',
               proposalStamp = 60000, dateNow = 60000\<rparr>"

text \<open>
  The proposals, stores and runs that the examples below pass through: an empty progress
  update proposed at minute one (\<open>demo_proposal\<close>), a second one at minute eleven, the
  completion of task \<open>a\<close>, and a progress update that adds the completed task \<open>c\<close>
  again.
\<close>

definition demo_touched :: ProjectContext where
  "demo_touched = demo_project\<lparr>lastModified := ''1970-01-01T00:01:00.000Z''\<rparr>"

definition demo_proposal :: UpdateProposal where
  "demo_proposal =
     \<lparr>p_id = ''u1'', p_type = ''progress'', p_timestamp = 60000, p_projectName = ''demo'',
      changesSummary = [], proposedContext = demo_touched, originalUpdates = JObj [],
      confirmationPrompt = generateConfirmationPrompt ''progress'' [] demo_touched\<rparr>"

definition demo_pending :: state where
  "demo_pending = demo_state\<lparr>pendingUpdates := [''u1'' \<mapsto> demo_proposal]\<rparr>"






definition demo_updates :: "op list" where
  "demo_updates = [Propose ''progress'' (JObj []) None demo_env,
                   Confirm ''u1'' None ''1970-01-01T00:03:00.000Z'']"

definition complete_a :: json where
  "complete_a = JObj [(''completedTasks'', JArr [JStr ''a''])]"

definition demo_done :: ProjectContext where
  "demo_done = demo_project\<lparr>lastModified := ''1970-01-01T00:01:00.000Z'',
                            openTasks := [''b''], completedTasks := [''c'', ''a'']\<rparr>"

definition done_proposal :: UpdateProposal where
  "done_proposal =
     \<lparr>p_id = ''u1'', p_type = ''progress'', p_timestamp = 60000, p_projectName = ''demo'',
      changesSummary = ''Completed 1 tasks'', proposedContext = demo_done,
      originalUpdates = complete_a,
      confirmationPrompt = generateConfirmationPrompt ''progress'' [''Completed 1 tasks''] demo_done\<rparr>"

definition done_pending :: state where
  "done_pending = demo_state\<lparr>pendingUpdates := [''u1'' \<mapsto> done_proposal]\<rparr>"


definition demo_overlap :: ProjectContext where
  "demo_overlap = demo_project\<lparr>lastModified := ''1970-01-01T00:01:00.000Z'',
                               openTasks := [''a'', ''b'', ''c'']\<rparr>"




section \<open>Properties of the validator\<close>





















section \<open>The sensitive-data check of proposeUpdate\<close>




section \<open>What proposeUpdate and confirmUpdate return\<close>

lemma confirm_missing:
  "pendingUpdates st i = None \<Longrightarrow>
   confirmUpdate st i m now =
     Inr (\<lparr>c_success = False, c_message = ''Update proposal not found or expired'',
           c_instructions = []\<rparr>, st)"
  by (simp add: confirmUpdate_def)

lemma confirm_found:
  assumes "pendingUpdates st i = Some proposal"
    and "apply_modifications (proposedContext proposal) m = Inr final"
  shows "confirmUpdate st i m now =
     Inr (\<lparr>c_success = True,
           c_message = ''Successfully applied '' @ p_type proposal @ '' update to '' @
                       p_projectName proposal,
           c_instructions =
             [stateSetProject ''project'' (p_projectName proposal) final,
              stateSetSession ''system'' ''last_session_context''
                (session_update proposal final now)]\<rparr>,
          st\<lparr>projectCache := (projectCache st)(p_projectName proposal \<mapsto> final),
             currentProject := Some final,
             sessionContext := Some (session_update proposal final now),
             pendingUpdates := (pendingUpdates st)(i := None)\<rparr>)"
  using assms by (simp add: confirmUpdate_def bind_err_def Let_def)

lemma apply_no_modifications: "apply_modifications c None = Inr c"
  by (simp add: apply_modifications_def)

text \<open>What a returned proposal tells about the call.\<close>

lemma propose_returns:
  assumes "proposeUpdate st ty upd name env = Inr (proposal, st1)"
  shows "isValid (validateForSensitiveData upd None)"
    and "\<exists>project changes.
           resolve_project st name = Some project \<and>
           apply_update ty upd (contentStamp env) project = Inr (proposedContext proposal, changes) \<and>
           p_projectName proposal = projectName project"
    and "p_id proposal = uuid env"
    and "p_timestamp proposal = proposalStamp env"
    and "st1 = st\<lparr>pendingUpdates :=
                sweep (dateNow env - 5 * 60 * 1000) ((pendingUpdates st)(uuid env \<mapsto> proposal))\<rparr>"
  using assms
  by (auto simp add: proposeUpdate_def bind_err_def Let_def json_clone_def
      split: if_splits option.splits sum.splits prod.splits)

lemma propose_total:
  assumes "isValid (validateForSensitiveData upd None)"
    and "resolve_project st name = Some project"
    and "apply_update ty upd (contentStamp env) project = Inr (proposed, changes)"
  shows "\<exists>proposal st1. proposeUpdate st ty upd name env = Inr (proposal, st1) \<and>
           proposedContext proposal = proposed"
  using assms by (simp add: proposeUpdate_def bind_err_def Let_def json_clone_def)

lemma sweep_keeps:
  "m i = Some q \<Longrightarrow> t \<le> p_timestamp q \<Longrightarrow> sweep t m i = Some q"
  by (simp add: sweep_def)


lemma sweep_none: "m i = None \<Longrightarrow> sweep t m i = None"
  by (simp add: sweep_def)

lemma propose_pending_own:
  assumes "proposeUpdate st ty upd name env = Inr (proposal, st1)" and "survives_own_sweep env"
  shows "pendingUpdates st1 (p_id proposal) = Some proposal"
proof -
  note r = propose_returns [OF assms(1)]
  have "((pendingUpdates st)(uuid env \<mapsto> proposal)) (uuid env) = Some proposal" by simp
  moreover have "dateNow env - 5 * 60 * 1000 \<le> p_timestamp proposal"
    using assms(2) r(4) by (simp add: survives_own_sweep_def)
  ultimately have "sweep (dateNow env - 5 * 60 * 1000) ((pendingUpdates st)(uuid env \<mapsto> proposal))
                     (uuid env) = Some proposal"
    by (rule sweep_keeps)
  then show ?thesis by (simp add: r(3) r(5))
qed



section \<open>Confirming a proposal\<close>

text \<open>
  C7. For every proposal in the pending table, \<open>confirmUpdate(id)\<close> succeeds the first
  time and removes the proposal, so that a second \<open>confirmUpdate\<close> with the same id (with
  any modifications) returns the failure \<open>Update proposal not found or expired\<close> with no
  instructions and leaves the store as the first call left it.
\<close>

theorem confirm_twice:
  assumes "pendingUpdates st i = Some proposal"
  shows "\<exists>r1 st1 r2.
           confirmUpdate st i None now1 = Inr (r1, st1) \<and> c_success r1 \<and>
           confirmUpdate st1 i m now2 = Inr (r2, st1) \<and> \<not> c_success r2 \<and>
           c_message r2 = ''Update proposal not found or expired'' \<and>
           c_instructions r2 = [] \<and>
           pendingUpdates st1 i = None"
proof -
  let ?r1 = "\<lparr>c_success = True,
           c_message = ''Successfully applied '' @ p_type proposal @ '' update to '' @
                       p_projectName proposal,
           c_instructions =
             [stateSetProject ''project'' (p_projectName proposal) (proposedContext proposal),
              stateSetSession ''system'' ''last_session_context''
                (session_update proposal (proposedContext proposal) now1)]\<rparr>"
  let ?st1 = "st\<lparr>projectCache := (projectCache st)(p_projectName proposal \<mapsto> proposedContext proposal),
             currentProject := Some (proposedContext proposal),
             sessionContext := Some (session_update proposal (proposedContext proposal) now1),
             pendingUpdates := (pendingUpdates st)(i := None)\<rparr>"
  let ?r2 = "\<lparr>c_success = False, c_message = ''Update proposal not found or expired'',
           c_instructions = []\<rparr>"
  have gone: "pendingUpdates ?st1 i = None" by simp
  have first: "confirmUpdate st i None now1 = Inr (?r1, ?st1)"
    using assms apply_no_modifications by (rule confirm_found)
  have second: "confirmUpdate ?st1 i m now2 = Inr (?r2, ?st1)"
    using gone by (rule confirm_missing)
  show ?thesis
    by (rule exI [of _ ?r1], rule exI [of _ ?st1], rule exI [of _ ?r2])
       (simp add: first second)
qed




section \<open>The lazy expiry of proposals\<close>



section \<open>The progress update\<close>

lemma complete_one:
  "apply_update ''progress'' (JObj [(''completedTasks'', JArr [JStr t])]) now project =
     Inr (project\<lparr>lastModified := now,
                  openTasks := filter (\<lambda>task. task \<noteq> t) (openTasks project),
                  completedTasks := completedTasks project @ [t]\<rparr>,
          [''Completed '' @ show_nat 1 @ '' tasks''])"
  by (simp add: apply_update_def apply_progress_def complete_tasks_def add_tasks_def set_focus_def
      bind_err_def prop_read_def spread_strings_def includes_task_def)

text \<open>
  C5. With project \<open>p\<close> current and \<open>t\<close> one of its open tasks, when
  \<open>proposeUpdate('progress', {completedTasks: [t]})\<close> returns a proposal (in a call whose
  clock did not advance five minutes), \<open>confirmUpdate\<close> of its id without modifications
  succeeds and commits a project in which \<open>t\<close> is no longer open and is completed, the
  other open tasks and the completed tasks are the same in the same order (\<open>t\<close> appended),
  and the decisions and milestones are unchanged.
\<close>

theorem progress_completes_task:
  assumes "currentProject st = Some p" and "t \<in> set (openTasks p)"
    and "proposeUpdate st ''progress'' (JObj [(''completedTasks'', JArr [JStr t])]) None env =
           Inr (proposal, st1)"
    and "survives_own_sweep env"
  shows "\<exists>r st2 final.
           confirmUpdate st1 (p_id proposal) None now = Inr (r, st2) \<and> c_success r \<and>
           currentProject st2 = Some final \<and> projectCache st2 (projectName p) = Some final \<and>
           t \<notin> set (openTasks final) \<and> t \<in> set (completedTasks final) \<and>
           openTasks final = filter (\<lambda>task. task \<noteq> t) (openTasks p) \<and>
           completedTasks final = completedTasks p @ [t] \<and>
           keyDecisions final = keyDecisions p \<and> milestones final = milestones p"
proof -
  have own: "pendingUpdates st1 (p_id proposal) = Some proposal"
    using assms(3,4) by (rule propose_pending_own)
  obtain project changes where target: "resolve_project st None = Some project"
      and upd: "apply_update ''progress'' (JObj [(''completedTasks'', JArr [JStr t])])
                  (contentStamp env) project = Inr (proposedContext proposal, changes)"
      and nm: "p_projectName proposal = projectName project"
    using propose_returns(2) [OF assms(3)] by blast
  have "project = p" using target assms(1) by (simp add: resolve_project_def)
  with upd nm have final: "proposedContext proposal =
      p\<lparr>lastModified := contentStamp env,
        openTasks := filter (\<lambda>task. task \<noteq> t) (openTasks p),
        completedTasks := completedTasks p @ [t]\<rparr>"
    and nm': "p_projectName proposal = projectName p"
    by (simp_all add: complete_one)
  show ?thesis
    by (simp add: confirm_found [OF own apply_no_modifications] final nm')
qed


section \<open>Disjointness of the task lists\<close>





















text \<open>
  The model follows every progress update whose two task lists are arrays of strings,
  whatever they hold, and every confirmation without modifications.
\<close>

lemma strings_of_strings: "strings_of (map JStr ss) = Some ss"
  by (induction ss) simp_all

lemma safe_integers_strings: "safe_integers_elems (map JStr ss)"
  by (induction ss) simp_all

lemma lists_of_strings_are_typed:
  "typed_op st (Propose ''progress''
     (JObj [(''completedTasks'', JArr (map JStr completed)), (''newTasks'', JArr (map JStr new))])
     name env)"
  by (simp add: leaves_types_def proposeUpdate_def Let_def apply_update_def apply_progress_def
      complete_tasks_def add_tasks_def set_focus_def bind_err_def prop_read_def
      spread_strings_def strings_of_strings safe_integers_strings split: option.splits)

lemma plain_confirmation_is_typed: "typed_op st (Confirm i None now)"
  by (simp add: confirmUpdate_def apply_modifications_def bind_err_def Let_def
      split: option.splits)




section \<open>Switching projects and returning\<close>

lemma stack_push_current:
  "currentProject st = Some cur \<Longrightarrow>
   \<exists>frame. push_current st stamp = projectStack st @ [frame] \<and> f_project frame = cur \<and>
           f_timestamp frame = stamp"
  by (simp add: push_current_def json_clone_def)

lemma return_pops:
  "projectStack st = below @ [frame] \<Longrightarrow>
   returnToPrevious st =
     (\<lparr>r_success = True, r_project = Some (f_project frame),
       r_message = ''Returned to project: '' @ projectName (f_project frame) @
                   '' (saved at '' @ f_timestamp frame @ '')''\<rparr>,
      st\<lparr>projectStack := below,
         currentProject := Some (f_project frame),
         projectCache := (projectCache st)(projectName (f_project frame) \<mapsto> f_project frame)\<rparr>)"
  by (simp add: returnToPrevious_def)


text \<open>
  C10. With a project current, \<open>switchProject(name, false)\<close> for a name that is not
  cached (and with no project data passed) fails with the instruction to load the project;
  the current project, the cache and the pending table are unchanged, but a copy of the
  current project has been pushed, so the stack is one frame longer, and a following
  \<open>returnToPrevious\<close> succeeds and pops that frame.
\<close>

theorem failed_switch_pushes_frame:
  assumes "currentProject st = Some cur" and "projectCache st name = None"
  shows "\<exists>res st1 frame r st2.
           switchProject st name False template None frameStamp createStamp = (res, st1) \<and>
           \<not> s_success res \<and>
           s_instructions res = [stateGet ''project'' name] \<and>
           currentProject st1 = currentProject st \<and>
           projectCache st1 = projectCache st \<and>
           pendingUpdates st1 = pendingUpdates st \<and>
           projectStack st1 = projectStack st @ [frame] \<and>
           f_project frame = cur \<and>
           length (projectStack st1) = Suc (length (projectStack st)) \<and>
           returnToPrevious st1 = (r, st2) \<and> r_success r \<and> r_project r = Some cur \<and>
           projectStack st2 = projectStack st \<and> currentProject st2 = Some cur"
proof -
  obtain frame where frame: "push_current st frameStamp = projectStack st @ [frame]"
      "f_project frame = cur"
    using stack_push_current [OF assms(1)] by blast
  let ?st1 = "st\<lparr>projectStack := projectStack st @ [frame]\<rparr>"
  let ?res = "\<lparr>s_success = False, s_project = None,
                 s_message = ''Project '' @ SQ # name @ SQ #
                             '' not in cache. Execute the instruction to load it.'',
                 s_instructions = [stateGet ''project'' name]\<rparr>"
  have sw: "switchProject st name False template None frameStamp createStamp = (?res, ?st1)"
    using assms(2) by (simp add: switchProject_def Let_def frame(1))
  have "projectStack ?st1 = projectStack st @ [frame]" by simp
  note ret = return_pops [OF this]
  show ?thesis
    apply (rule exI [of _ ?res], rule exI [of _ ?st1], rule exI [of _ frame])
    apply (rule exI [of _ "fst (returnToPrevious ?st1)"], rule exI [of _ "snd (returnToPrevious ?st1)"])
    apply (simp add: sw ret frame(2))
    done
qed

lemma propose_keeps_stack:
  "projectStack (state_after st (proposeUpdate st ty upd name env)) = projectStack st"
  by (auto simp add: proposeUpdate_def state_after_def bind_err_def Let_def
      split: option.splits sum.splits prod.splits)

lemma confirm_keeps_stack:
  "projectStack (state_after st (confirmUpdate st i m now)) = projectStack st"
  by (auto simp add: confirmUpdate_def state_after_def bind_err_def Let_def
      split: option.splits sum.splits prod.splits)

lemma run_op_keeps_stack: "projectStack (run_op st op) = projectStack st"
  by (cases op) (simp_all add: propose_keeps_stack confirm_keeps_stack)

lemma run_ops_keeps_stack: "projectStack (run_ops st ops) = projectStack st"
  unfolding run_ops_def
  by (induction ops arbitrary: st) (simp_all add: run_op_keeps_stack)

lemma switch_success_stack:
  assumes "currentProject st = Some a"
  shows "\<exists>frame. projectStack (snd (switchProject st b create template existing fs cs)) =
                    projectStack st @ [frame] \<and> f_project frame = a"
proof -
  obtain frame where frame: "push_current st fs = projectStack st @ [frame]" "f_project frame = a"
    using stack_push_current [OF assms] by blast
  then show ?thesis
    by (auto simp add: switchProject_def Let_def split: option.splits)
qed


text \<open>
  C6. With project \<open>a\<close> current, after a successful \<open>switchProject\<close> and any sequence
  of \<open>proposeUpdate\<close> and \<open>confirmUpdate\<close> calls (on any project, with any payloads),
  \<open>returnToPrevious\<close> succeeds and makes \<open>a\<close>, as it was at the switch, the current and
  the cached project, and the stack is as before the switch.
\<close>

theorem return_restores_snapshot:
  assumes "currentProject st = Some a"
    and "switchProject st b create template existing frameStamp createStamp = (res, st1)"
    and "s_success res"
  shows "\<exists>r st3.
           returnToPrevious (run_ops st1 ops) = (r, st3) \<and> r_success r \<and>
           r_project r = Some a \<and> currentProject st3 = Some a \<and>
           projectCache st3 (projectName a) = Some a \<and>
           projectStack st3 = projectStack st"
proof -
  obtain frame where "projectStack st1 = projectStack st @ [frame]" and fa: "f_project frame = a"
    using switch_success_stack [OF assms(1), of b create template existing frameStamp createStamp]
      assms(2) by auto
  then have "projectStack (run_ops st1 ops) = projectStack st @ [frame]"
    by (simp add: run_ops_keeps_stack)
  note ret = return_pops [OF this]
  show ?thesis
    apply (rule exI [of _ "fst (returnToPrevious (run_ops st1 ops))"])
    apply (rule exI [of _ "snd (returnToPrevious (run_ops st1 ops))"])
    apply (simp add: ret fa)
    done
qed




section \<open>The explicit mode switch of the classifier\<close>

lemma lower_message: "toLowerCase ''switch to research mode'' = ''switch to research mode''"
  by code_simp

lemma explicit_research:
  "(if str_includes ''switch to research mode'' ''switch to''
    then find (\<lambda>m. str_includes ''switch to research mode'' (replace_first m ''_'' '' '')) modes
    else None) = Some ''research''"
  by code_simp

lemma explicit_research_result:
  "performClassification ''switch to research mode'' context' =
     \<lparr>mode = ''research'', confidence = 95 / 100, reasoning = ''Explicit mode switch requested''\<rparr>"
  unfolding performClassification_def explicit_research by simp


text \<open>
  C8. For every context, \<open>classify("switch to research mode", context)\<close> returns mode
  \<open>research\<close> with confidence 0.95.
\<close>

theorem explicit_switch_to_research:
  "mode (classify ''switch to research mode'' context') = ''research'' \<and>
   confidence (classify ''switch to research mode'' context') = 95 / 100"
  unfolding classify_def lower_message explicit_research_result by (simp add: Let_def)


section \<open>The claims on the concrete store\<close>

subsection \<open>Evaluating the calls\<close>


lemma show_nat_1: "show_nat 1 = ''1''" "show_nat (Suc 0) = ''1''"
  by code_simp+

lemma propose_eval:
  assumes "isValid (validateForSensitiveData upd None)"
    and "resolve_project st name = Some project"
    and "apply_update ty upd (contentStamp env) project = Inr (proposed, changes)"
  shows "proposeUpdate st ty upd name env =
     Inr (\<lparr>p_id = uuid env, p_type = ty, p_timestamp = proposalStamp env,
           p_projectName = projectName project, changesSummary = join '' | '' changes,
           proposedContext = proposed, originalUpdates = upd,
           confirmationPrompt = generateConfirmationPrompt ty changes proposed\<rparr>,
          st\<lparr>pendingUpdates :=
               sweep (dateNow env - 5 * 60 * 1000)
                 ((pendingUpdates st)(uuid env \<mapsto>
                    \<lparr>p_id = uuid env, p_type = ty, p_timestamp = proposalStamp env,
                     p_projectName = projectName project, changesSummary = join '' | '' changes,
                     proposedContext = proposed, originalUpdates = upd,
                     confirmationPrompt = generateConfirmationPrompt ty changes proposed\<rparr>))\<rparr>)"
  using assms by (simp add: proposeUpdate_def bind_err_def Let_def json_clone_def)


lemma demo_resolves: "resolve_project demo_state None = Some demo_project"
  by (simp add: resolve_project_def demo_state_def)

lemma demo_current: "currentProject demo_state = Some demo_project"
  by (simp add: demo_state_def)

lemma demo_foo_uncached: "projectCache demo_state ''foo'' = None"
  by (simp add: demo_state_def)

lemma demo_survives: "survives_own_sweep demo_env"
  by (simp add: survives_own_sweep_def demo_env_def)



lemma demo_pending_u1: "pendingUpdates demo_pending ''u1'' = Some demo_proposal"
  by (simp add: demo_pending_def)

subsection \<open>Expiry\<close>



subsection \<open>Confirmation\<close>

text \<open>
  C7 on the store with the pending proposal \<open>u1\<close>.
\<close>

theorem confirm_twice_witness:
  "pendingUpdates demo_pending ''u1'' = Some demo_proposal \<and>
   (\<exists>r1 st1 r2.
      confirmUpdate demo_pending ''u1'' None ''1970-01-01T00:02:00.000Z'' = Inr (r1, st1) \<and>
      c_success r1 \<and>
      confirmUpdate st1 ''u1'' None ''1970-01-01T00:03:00.000Z'' = Inr (r2, st1) \<and>
      \<not> c_success r2 \<and>
      c_message r2 = ''Update proposal not found or expired'' \<and>
      c_instructions r2 = [] \<and>
      pendingUpdates st1 ''u1'' = None)"
  using confirm_twice [OF demo_pending_u1, of "''1970-01-01T00:02:00.000Z''" None
      "''1970-01-01T00:03:00.000Z''"] demo_pending_u1
  by blast






subsection \<open>The progress update and the task lists\<close>

lemma valid_complete_a:
  "validateForSensitiveData complete_a None = \<lparr>isValid = True, warnings = [], errors = []\<rparr>"
  unfolding complete_a_def by code_simp

lemma complete_a_update:
  "apply_update ''progress'' complete_a (contentStamp demo_env) demo_project =
     Inr (demo_done, [''Completed 1 tasks''])"
  unfolding complete_a_def
  by (simp add: complete_one show_nat_1 demo_done_def demo_env_def demo_project_def)

lemma complete_a_propose:
  "proposeUpdate demo_state ''progress'' complete_a None demo_env = Inr (done_proposal, done_pending)"
proof -
  have v: "isValid (validateForSensitiveData complete_a None)" unfolding valid_complete_a by simp
  have s: "sweep (dateNow demo_env - 5 * 60 * 1000)
             ((pendingUpdates demo_state)(uuid demo_env \<mapsto> done_proposal)) =
           [''u1'' \<mapsto> done_proposal]"
    by (rule ext) (simp add: sweep_def demo_env_def demo_state_def done_proposal_def)
  show ?thesis
    using propose_eval [OF v demo_resolves complete_a_update] s
    by (simp add: done_proposal_def done_pending_def demo_env_def demo_project_def)
qed

lemma a_is_open: "''a'' \<in> set (openTasks demo_project)"
  by (simp add: demo_project_def)

text \<open>
  C5 on the demo project: completing the open task \<open>a\<close>.
\<close>

theorem progress_completes_task_witness:
  "currentProject demo_state = Some demo_project \<and> ''a'' \<in> set (openTasks demo_project) \<and>
   proposeUpdate demo_state ''progress'' (JObj [(''completedTasks'', JArr [JStr ''a''])]) None
     demo_env = Inr (done_proposal, done_pending) \<and>
   survives_own_sweep demo_env \<and>
   (\<exists>r st2 final.
      confirmUpdate done_pending (p_id done_proposal) None ''1970-01-01T00:02:00.000Z'' =
        Inr (r, st2) \<and> c_success r \<and>
      currentProject st2 = Some final \<and> projectCache st2 (projectName demo_project) = Some final \<and>
      ''a'' \<notin> set (openTasks final) \<and> ''a'' \<in> set (completedTasks final) \<and>
      openTasks final = filter (\<lambda>task. task \<noteq> ''a'') (openTasks demo_project) \<and>
      completedTasks final = completedTasks demo_project @ [''a''] \<and>
      keyDecisions final = keyDecisions demo_project \<and>
      milestones final = milestones demo_project)"
proof -
  have p: "proposeUpdate demo_state ''progress'' (JObj [(''completedTasks'', JArr [JStr ''a''])])
             None demo_env = Inr (done_proposal, done_pending)"
    using complete_a_propose by (simp add: complete_a_def)
  show ?thesis
    using progress_completes_task [OF demo_current a_is_open p demo_survives,
        of "''1970-01-01T00:02:00.000Z''"]
      demo_current a_is_open p demo_survives
    by blast
qed







text \<open>
  A string in the place of the list of new tasks is spread into its characters: with
  \<open>newTasks = "c"\<close> the update adds the completed task \<open>c\<close> as well, and is not among
  the safe calls.
\<close>

lemma string_spreads_into_tasks:
  "apply_update ''progress'' (JObj [(''newTasks'', JStr ''c'')]) (contentStamp demo_env)
     demo_project = Inr (demo_overlap, [''Added 1 new tasks'']) \<and>
   \<not> safe_op demo_state (Propose ''progress'' (JObj [(''newTasks'', JStr ''c'')]) None demo_env)"
  by (simp add: apply_update_def apply_progress_def complete_tasks_def add_tasks_def
      set_focus_def bind_err_def prop_read_def spread_strings_def show_nat_1 demo_overlap_def
      demo_env_def demo_project_def demo_resolves payload_strings_def)



subsection \<open>Switching, templates and the classifier\<close>

text \<open>
  C10 on the demo store and the uncached name \<open>foo\<close>.
\<close>

theorem failed_switch_pushes_frame_witness:
  "currentProject demo_state = Some demo_project \<and> projectCache demo_state ''foo'' = None \<and>
   (\<exists>res st1 frame r st2.
      switchProject demo_state ''foo'' False None None ''1970-01-01T00:02:00.000Z''
        ''1970-01-01T00:02:00.000Z'' = (res, st1) \<and>
      \<not> s_success res \<and>
      s_instructions res = [stateGet ''project'' ''foo''] \<and>
      currentProject st1 = currentProject demo_state \<and>
      projectCache st1 = projectCache demo_state \<and>
      pendingUpdates st1 = pendingUpdates demo_state \<and>
      projectStack st1 = projectStack demo_state @ [frame] \<and>
      f_project frame = demo_project \<and>
      length (projectStack st1) = Suc (length (projectStack demo_state)) \<and>
      returnToPrevious st1 = (r, st2) \<and> r_success r \<and> r_project r = Some demo_project \<and>
      projectStack st2 = projectStack demo_state \<and> currentProject st2 = Some demo_project)"
  using failed_switch_pushes_frame [OF demo_current demo_foo_uncached, of None
      "''1970-01-01T00:02:00.000Z''" "''1970-01-01T00:02:00.000Z''"]
    demo_current demo_foo_uncached
  by blast



lemma demo_switch_succeeds:
  "s_success (fst (switchProject demo_state ''foo'' True (Some ''ml'') None
      ''1970-01-01T00:02:00.000Z'' ''1970-01-01T00:02:00.000Z''))"
  by (simp add: switchProject_def Let_def demo_state_def)

text \<open>
  C6 on the demo store: switch to a new project \<open>foo\<close>, propose and confirm an
  update, return.
\<close>

theorem return_restores_snapshot_witness:
  "currentProject demo_state = Some demo_project \<and>
   s_success (fst (switchProject demo_state ''foo'' True (Some ''ml'') None
      ''1970-01-01T00:02:00.000Z'' ''1970-01-01T00:02:00.000Z'')) \<and>
   (\<exists>r st3.
      returnToPrevious (run_ops (snd (switchProject demo_state ''foo'' True (Some ''ml'') None
          ''1970-01-01T00:02:00.000Z'' ''1970-01-01T00:02:00.000Z'')) demo_updates) = (r, st3) \<and>
      r_success r \<and> r_project r = Some demo_project \<and> currentProject st3 = Some demo_project \<and>
      projectCache st3 (projectName demo_project) = Some demo_project \<and>
      projectStack st3 = projectStack demo_state)"
proof -
  have pair: "switchProject demo_state ''foo'' True (Some ''ml'') None
      ''1970-01-01T00:02:00.000Z'' ''1970-01-01T00:02:00.000Z'' =
     (fst (switchProject demo_state ''foo'' True (Some ''ml'') None
        ''1970-01-01T00:02:00.000Z'' ''1970-01-01T00:02:00.000Z''),
      snd (switchProject demo_state ''foo'' True (Some ''ml'') None
        ''1970-01-01T00:02:00.000Z'' ''1970-01-01T00:02:00.000Z''))"
    by simp
  show ?thesis
    using return_restores_snapshot [OF demo_current pair demo_switch_succeeds, of demo_updates]
      demo_current demo_switch_succeeds
    by blast
qed

text \<open>
  C8 with a context that names a last project and a conversation history.
\<close>

theorem explicit_switch_to_research_witness:
  "mode (classify ''switch to research mode''
      (Some \<lparr>c_lastProject = Some ''demo'',
             conversationHistory = Some [(''user'', ''continue with the next task'')],
             recentDecisions = None\<rparr>)) = ''research'' \<and>
   confidence (classify ''switch to research mode''
      (Some \<lparr>c_lastProject = Some ''demo'',
             conversationHistory = Some [(''user'', ''continue with the next task'')],
             recentDecisions = None\<rparr>)) = 95 / 100"
  using explicit_switch_to_research
  by blast

end
